theory Spec2Isabelle
  imports Complex_Main
begin

section \<open>Values of the feeds\<close>

text \<open>
  A field of a parsed feed row is a JavaScript value. Finite numbers are idealised as
  rationals; a number that is not finite (NaN, an infinity) is \<open>JNonFinite\<close>; booleans,
  arrays and objects are \<open>JOther\<close>. A missing key reads as \<open>JUndefined\<close>.
\<close>

datatype jsval = JUndefined | JNull | JNum rat | JNonFinite | JStr string | JOther

text \<open>
  What the server takes from the JavaScript runtime and from its configuration:
  \<open>parseFloat\<close> (\<open>None\<close> when the result is not a finite number), the \<open>Date\<close>
  constructor on a string (the time value in milliseconds, \<open>None\<close> for an invalid date),
  \<open>Date.prototype.toISOString\<close> on a time value, the local hour and minute label of
  \<open>fmtHM\<close>, the local day, month and hour label of the Kp chart, \<open>toFixed(4)\<close>,
  \<open>parseInt\<close> in base 10 (\<open>None\<close> for NaN), and the configured \<open>TIME_OFFSET_MIN\<close>.
\<close>

record jsenv =
  parseFloat :: "string \<Rightarrow> rat option"
  newDate :: "string \<Rightarrow> int option"
  toISOString :: "int \<Rightarrow> string"
  fmtHM :: "string \<Rightarrow> string"
  fmtDayHour :: "string \<Rightarrow> string"
  toFixed4 :: "rat \<Rightarrow> string"
  parseInt10 :: "string \<Rightarrow> int option"
  TIME_OFFSET_MIN :: int

record swrow =
  time_tag :: string
  field :: "string \<Rightarrow> jsval"

definition toNumber :: "jsenv \<Rightarrow> jsval \<Rightarrow> rat option" where
  "toNumber env v = (case v of JNum r \<Rightarrow> Some r | JStr s \<Rightarrow> parseFloat env s | _ \<Rightarrow> None)"

definition math_round :: "rat \<Rightarrow> int" where
  "math_round x = \<lfloor>x + 1 / 2\<rfloor>"

fun round1 :: "rat option \<Rightarrow> rat option" where
  "round1 None = None"
| "round1 (Some v) = Some (of_int (math_round (v * 10)) / 10)"

fun round2 :: "rat option \<Rightarrow> rat option" where
  "round2 None = None"
| "round2 (Some v) = Some (of_int (math_round (v * 100)) / 100)"

text \<open>The first element of a list, in list order, on which \<open>f\<close> gives a value.\<close>

fun firstSome :: "('a \<Rightarrow> 'b option) \<Rightarrow> 'a list \<Rightarrow> 'b option" where
  "firstSome f [] = None"
| "firstSome f (x # xs) = (case f x of Some v \<Rightarrow> Some v | None \<Rightarrow> firstSome f xs)"

text \<open>\<open>latestNonNull\<close> and \<open>latestFinite\<close> walk their array from the last index down.\<close>

definition latestNonNull :: "jsenv \<Rightarrow> swrow list \<Rightarrow> string \<Rightarrow> rat option" where
  "latestNonNull env rows key = firstSome (\<lambda>r. toNumber env (field r key)) (rev rows)"

definition latestFinite :: "rat option list \<Rightarrow> rat option" where
  "latestFinite arr = firstSome (\<lambda>v. v) (rev arr)"

text \<open>\<open>pick\<close>: the first finite numeric value under a list of candidate keys.\<close>

fun pick :: "jsenv \<Rightarrow> swrow option \<Rightarrow> string list \<Rightarrow> rat option" where
  "pick env None keys = None"
| "pick env (Some row) [] = None"
| "pick env (Some row) (k # ks) =
     (if field row k \<noteq> JUndefined \<and> field row k \<noteq> JNull \<and> field row k \<noteq> JStr []
      then (case toNumber env (field row k) of
              Some n \<Rightarrow> Some n
            | None \<Rightarrow> pick env (Some row) ks)
      else pick env (Some row) ks)"

section \<open>Timestamp normalisation\<close>

definition isDigit :: "char \<Rightarrow> bool" where
  "isDigit c = (c \<in> set ''0123456789'')"

definition isSign :: "char \<Rightarrow> bool" where
  "isSign c = (c = CHR ''+'' \<or> c = CHR ''-'')"

text \<open>The whole of a string matches \<open>[+\-]\d\d:?\d\d\<close>.\<close>

fun matchOffset :: "string \<Rightarrow> bool" where
  "matchOffset [a, b, c, d, e] = (isSign a \<and> isDigit b \<and> isDigit c \<and> isDigit d \<and> isDigit e)"
| "matchOffset [a, b, c, x, d, e] =
     (isSign a \<and> isDigit b \<and> isDigit c \<and> x = CHR '':'' \<and> isDigit d \<and> isDigit e)"
| "matchOffset _ = False"

text \<open>The test of \<open>/Z|[+\-]\d\d:?\d\d$/\<close>: a \<open>Z\<close> anywhere, or an offset at the end.\<close>

definition tzMarker :: "string \<Rightarrow> bool" where
  "tzMarker str =
     (CHR ''Z'' \<in> set str
      \<or> (5 \<le> length str \<and> matchOffset (drop (length str - 5) str))
      \<or> (6 \<le> length str \<and> matchOffset (drop (length str - 6) str)))"

text \<open>\<open>str.replace(' ', 'T')\<close> replaces the first space only.\<close>

fun replaceSpace :: "string \<Rightarrow> string" where
  "replaceSpace [] = []"
| "replaceSpace (c # cs) = (if c = CHR '' '' then CHR ''T'' # cs else c # replaceSpace cs)"

definition parseToUTC :: "jsenv \<Rightarrow> string \<Rightarrow> int option" where
  "parseToUTC env str =
     (if tzMarker str then newDate env (replaceSpace str)
      else newDate env (replaceSpace str @ ''Z''))"

text \<open>\<open>toISOString\<close> throws on an invalid date, and the \<open>catch\<close> returns the input.\<close>

definition normalizeUtcIso :: "jsenv \<Rightarrow> string \<Rightarrow> string" where
  "normalizeUtcIso env s =
     (case parseToUTC env s of None \<Rightarrow> s | Some t \<Rightarrow> toISOString env t)"

text \<open>A time value beyond 8.64e15 ms makes an invalid date.\<close>

definition shiftIso :: "jsenv \<Rightarrow> string \<Rightarrow> int \<Rightarrow> string" where
  "shiftIso env s minutes =
     (case parseToUTC env s of
        None \<Rightarrow> s
      | Some t \<Rightarrow>
          (let ms = t + minutes * 60 * 1000
           in if \<bar>ms\<bar> \<le> 8640000000000000 then toISOString env ms else s))"

definition outTime :: "jsenv \<Rightarrow> string \<Rightarrow> string" where
  "outTime env t =
     (let norm = normalizeUtcIso env t
      in if TIME_OFFSET_MIN env \<noteq> 0 then shiftIso env norm (TIME_OFFSET_MIN env) else norm)"

section \<open>Time alignment of the solar-wind feeds\<close>

definition speedKeys :: "string list" where
  "speedKeys = [''speed'', ''flow_speed'', ''bulk_speed'', ''v'', ''proton_speed'']"

definition densityKeys :: "string list" where
  "densityKeys = [''density'', ''proton_density'', ''n'']"

definition bzKeys :: "string list" where
  "bzKeys = [''bz_gsm'', ''bz'', ''bz_gse'']"

definition btKeys :: "string list" where
  "btKeys = [''bt'', ''bt_total'']"

text \<open>
  \<open>new Map(rows.map((r) => [r.time_tag, r]))\<close>: a key keeps the position of its first
  insertion and the value of its last.
\<close>

definition firstOccurrences :: "'a list \<Rightarrow> 'a list" where
  "firstOccurrences xs = rev (remdups (rev xs))"

definition mapKeys :: "swrow list \<Rightarrow> string list" where
  "mapKeys rows = firstOccurrences (map time_tag rows)"

definition mapGet :: "swrow list \<Rightarrow> string \<Rightarrow> swrow option" where
  "mapGet rows t = find (\<lambda>r. time_tag r = t) (rev rows)"

text \<open>
  The comparator of the sort is \<open>new Date(a) - new Date(b)\<close>; the sort is stable. The
  key below is the time value of a tag, so the model is the code's on feeds whose time
  tags are all valid dates (the comparator is not an order otherwise).
\<close>

definition dateKey :: "jsenv \<Rightarrow> string \<Rightarrow> int" where
  "dateKey env t = (case newDate env t of Some v \<Rightarrow> v | None \<Rightarrow> 0)"

definition unionTimes :: "swrow list \<Rightarrow> swrow list \<Rightarrow> string list" where
  "unionTimes plasma mag = firstOccurrences (mapKeys plasma @ mapKeys mag)"

definition sortedTimes :: "jsenv \<Rightarrow> swrow list \<Rightarrow> swrow list \<Rightarrow> string list" where
  "sortedTimes env plasma mag = sort_key (dateKey env) (unionTimes plasma mag)"

definition tail60 :: "'a list \<Rightarrow> 'a list" where
  "tail60 xs = drop (length xs - 60) xs"

record nowvals =
  now_bz :: "rat option"
  now_bt :: "rat option"
  now_speed :: "rat option"
  now_density :: "rat option"

text \<open>
  The loop that looks for the current snapshot, on the timestamps in the order it visits
  them (from the last index down). It gives the raw timestamp it stopped at and the values.
\<close>

fun scanAligned :: "jsenv \<Rightarrow> swrow list \<Rightarrow> swrow list \<Rightarrow> string list \<Rightarrow> (string \<times> nowvals) option" where
  "scanAligned env plasma mag [] = None"
| "scanAligned env plasma mag (t # ts) =
     (let p = mapGet plasma t; m = mapGet mag t
      in if p = None \<or> m = None then scanAligned env plasma mag ts
         else
           (let bz = pick env m bzKeys; bt = pick env m btKeys;
                sp = pick env p speedKeys; de = pick env p densityKeys
            in if bz \<noteq> None \<and> bt \<noteq> None \<and> sp \<noteq> None \<and> de \<noteq> None
               then Some (t, \<lparr>now_bz = round1 bz, now_bt = round1 bt,
                               now_speed = round1 sp, now_density = round2 de\<rparr>)
               else scanAligned env plasma mag ts))"

definition strictJoin :: "jsenv \<Rightarrow> swrow list \<Rightarrow> swrow list \<Rightarrow> (string \<times> nowvals) option" where
  "strictJoin env plasma mag = scanAligned env plasma mag (rev (sortedTimes env plasma mag))"

text \<open>The chart series over the last 60 timestamps.\<close>

definition speedSeries :: "jsenv \<Rightarrow> swrow list \<Rightarrow> string list \<Rightarrow> rat option list" where
  "speedSeries env plasma win = map (\<lambda>t. round1 (pick env (mapGet plasma t) speedKeys)) win"

definition densitySeries :: "jsenv \<Rightarrow> swrow list \<Rightarrow> string list \<Rightarrow> rat option list" where
  "densitySeries env plasma win = map (\<lambda>t. round2 (pick env (mapGet plasma t) densityKeys)) win"

definition bzSeries :: "jsenv \<Rightarrow> swrow list \<Rightarrow> string list \<Rightarrow> rat option list" where
  "bzSeries env mag win = map (\<lambda>t. round1 (pick env (mapGet mag t) bzKeys)) win"

definition btSeries :: "jsenv \<Rightarrow> swrow list \<Rightarrow> string list \<Rightarrow> rat option list" where
  "btSeries env mag win = map (\<lambda>t. round1 (pick env (mapGet mag t) btKeys)) win"

text \<open>The values taken when the alignment found nothing.\<close>

definition orElse :: "'a option \<Rightarrow> 'a option \<Rightarrow> 'a option" where
  "orElse a b = (case a of Some v \<Rightarrow> Some v | None \<Rightarrow> b)"

definition fallbackNow :: "jsenv \<Rightarrow> swrow list \<Rightarrow> swrow list \<Rightarrow> nowvals" where
  "fallbackNow env plasma mag =
     (let win = tail60 (sortedTimes env plasma mag)
      in \<lparr>now_bz = round1 (latestNonNull env mag ''bz_gsm''),
          now_bt = round1 (latestNonNull env mag ''bt''),
          now_speed = round1 (orElse (latestFinite (speedSeries env plasma win))
                                     (latestNonNull env plasma ''speed'')),
          now_density = round2 (orElse (latestFinite (densitySeries env plasma win))
                                       (latestNonNull env plasma ''density''))\<rparr>)"

definition allNull :: "nowvals \<Rightarrow> bool" where
  "allNull v = (now_bz v = None \<and> now_bt v = None \<and> now_speed v = None \<and> now_density v = None)"

definition nullNow :: nowvals where
  "nullNow = \<lparr>now_bz = None, now_bt = None, now_speed = None, now_density = None\<rparr>"

record swout =
  out_updatedAt :: string
  out_now :: nowvals
  out_labels :: "string list"
  out_times :: "string list"
  out_speed :: "rat option list"
  out_density :: "rat option list"
  out_bz :: "rat option list"
  out_bt :: "rat option list"

text \<open>
  The payload that \<open>getSolarwind\<close> builds from the two parsed feeds; \<open>clock\<close> is
  \<open>new Date().toISOString()\<close>. The provenance label is left out.
\<close>

definition solarwindOut :: "jsenv \<Rightarrow> string \<Rightarrow> swrow list \<Rightarrow> swrow list \<Rightarrow> swout" where
  "solarwindOut env clock plasma mag =
     (let times = sortedTimes env plasma mag;
          win = tail60 times;
          timesOut = map (outTime env) win;
          aligned = strictJoin env plasma mag;
          nowVals0 = (case aligned of Some (t, v) \<Rightarrow> v | None \<Rightarrow> nullNow);
          nowTimeAligned = (case aligned of Some (t, v) \<Rightarrow> Some (outTime env t) | None \<Rightarrow> None);
          nowVals = (if allNull nowVals0 then fallbackNow env plasma mag else nowVals0)
      in \<lparr>out_updatedAt =
            (case nowTimeAligned of
               Some s \<Rightarrow> if s \<noteq> [] then s else (if timesOut \<noteq> [] then last timesOut else clock)
             | None \<Rightarrow> (if timesOut \<noteq> [] then last timesOut else clock)),
          out_now = nowVals,
          out_labels = map (fmtHM env) timesOut,
          out_times = timesOut,
          out_speed = speedSeries env plasma win,
          out_density = densitySeries env plasma win,
          out_bz = bzSeries env mag win,
          out_bt = btSeries env mag win\<rparr>)"


section \<open>The cache and the fetchers\<close>

text \<open>
  What an upstream request comes to: the request fails (the promise of \<open>fetch\<close>
  rejects), or there is a response with its \<open>ok\<close> flag, its status and its body; the body
  is \<open>None\<close> when reading or parsing it throws.
\<close>

datatype 'b fetched = Failed | Response bool nat "'b option"

record 'a entry =
  e_data :: 'a
  e_ts :: int

definition TTL_MS :: int where
  "TTL_MS = 4 * 60 * 1000"

definition WEATHER_TTL_MS :: int where
  "WEATHER_TTL_MS = 10 * 60 * 1000"

text \<open>
  An upstream request, by the resource it asks for: the two solar-wind feeds, the Kp feed,
  Open-Meteo at a latitude and a longitude, the magnetometer query for a station
  identifier over a number of minutes, the full-day text dump of a station, a radar tile
  (layers, bounding box, styles, time, tiled) and a solar image at a URL.
\<close>

datatype request =
    SWPC_PLASMA
  | SWPC_MAG
  | SWPC_KP
  | OPEN_METEO rat rat
  | FMI_OPEN_DATA int int
  | FMI_TEXT string
  | FMI_WMS "string list" "rat list" string "string option" bool
  | SOLAR_IMAGE string

definition FMI_STATIONS :: "string list" where
  "FMI_STATIONS = [''KEV'', ''MAS'', ''KIL'', ''IVA'', ''MUO'', ''PEL'', ''RAN'', ''OUJ'',
                   ''MEK'', ''HAN'', ''NUR'', ''TAR'']"

text \<open>The Kp feed after \<open>parseSwpcArray\<close>: the lower-cased header row and the rows.\<close>

record kpfeed =
  kp_headers :: "string list"
  kp_rows :: "swrow list"

record kpout =
  kp_updatedAt :: string
  kp_now :: "rat option"
  kp_labels :: "string list"
  kp_values :: "rat option list"

record fmirow =
  fr_time :: string
  fr_bx :: "rat option"
  fr_bz :: "rat option"
  fr_station :: "string option"

record bxdata =
  bx_station :: string
  bx_minutes :: int
  bx_stations :: "string list"
  bx_rows :: "fmirow list"
  bx_times :: "string list"
  bx_bx :: "rat option list"
  bx_bz :: "rat option list"
  bx_updatedAt :: string

record weather =
  w_updatedAt :: string
  w_latitude :: rat
  w_longitude :: rat
  w_temperatureC :: "rat option"
  w_cloudCover :: "rat option"
  w_sourceUrl :: "string option"

text \<open>The field \<open>current\<close> of an Open-Meteo answer.\<close>

record meteo =
  m_time :: "string option"
  m_temperature :: jsval
  m_cloud :: jsval

text \<open>
  The state of the server: the cache object, and the log of the upstream requests made so
  far (oldest first).
\<close>

text \<open>The sanitised query of a radar tile, which is the key of its cache entry.\<close>

record radarKey =
  rk_layers :: "string list"
  rk_bbox :: "rat list"
  rk_styles :: string
  rk_time :: "string option"
  rk_tiled :: bool

record tile =
  t_buf :: string
  t_ct :: string

record 'rx server =
  c_solarwind :: "swout option entry"
  c_kp :: "kpout option entry"
  c_rx :: "'rx option entry"
  c_fmiBx :: "string \<rightharpoonup> bxdata entry"
  c_fmiRadar :: "radarKey \<rightharpoonup> tile entry"
  c_weatherTemp :: "string \<rightharpoonup> weather entry"
  requests :: "request list"

definition initialServer :: "'rx server" where
  "initialServer =
     \<lparr>c_solarwind = \<lparr>e_data = None, e_ts = 0\<rparr>,
      c_kp = \<lparr>e_data = None, e_ts = 0\<rparr>,
      c_rx = \<lparr>e_data = None, e_ts = 0\<rparr>,
      c_fmiBx = Map.empty,
      c_fmiRadar = Map.empty,
      c_weatherTemp = Map.empty,
      requests = []\<rparr>"

text \<open>
  \<open>getSolarwind\<close>. \<open>now\<close> is \<open>Date.now()\<close>, \<open>clock\<close> is \<open>new Date().toISOString()\<close>,
  the two answers are what the plasma and the magnetometer feed return when asked (bodies
  already through \<open>parseSwpc\<close>), and \<open>mock\<close> is what \<open>mockSolarwindData()\<close> would build.
\<close>

definition fetchSolarwind ::
  "jsenv \<Rightarrow> string \<Rightarrow> swrow list fetched \<Rightarrow> swrow list fetched \<Rightarrow> swout \<Rightarrow> swout" where
  "fetchSolarwind env clock plasmaRes magRes mock =
     (case (plasmaRes, magRes) of
        (Response okp sp bp, Response okm sm bm) \<Rightarrow>
          if \<not> okp \<or> \<not> okm then mock
          else (case (bp, bm) of
                  (Some plasma, Some mag) \<Rightarrow> solarwindOut env clock plasma mag
                | _ \<Rightarrow> mock)
      | _ \<Rightarrow> mock)"

definition getSolarwind ::
  "jsenv \<Rightarrow> int \<Rightarrow> string \<Rightarrow> swrow list fetched \<Rightarrow> swrow list fetched \<Rightarrow> swout
     \<Rightarrow> 'rx server \<Rightarrow> swout \<times> 'rx server" where
  "getSolarwind env now clock plasmaRes magRes mock st =
     (case e_data (c_solarwind st) of
        Some d \<Rightarrow>
          if now - e_ts (c_solarwind st) < TTL_MS then (d, st)
          else
            (let out = fetchSolarwind env clock plasmaRes magRes mock
             in (out, st\<lparr>c_solarwind := \<lparr>e_data = Some out, e_ts = now\<rparr>,
                        requests := requests st @ [SWPC_PLASMA, SWPC_MAG]\<rparr>))
      | None \<Rightarrow>
          (let out = fetchSolarwind env clock plasmaRes magRes mock
           in (out, st\<lparr>c_solarwind := \<lparr>e_data = Some out, e_ts = now\<rparr>,
                      requests := requests st @ [SWPC_PLASMA, SWPC_MAG]\<rparr>)))"

text \<open>\<open>getKp\<close>: the last eight rows of the feed; no rows is an error.\<close>

definition kpKey :: "string list \<Rightarrow> string" where
  "kpKey keys =
     (if ''kp'' \<in> set keys then ''kp'' else if ''kp_index'' \<in> set keys then ''kp_index'' else ''kp'')"

definition kpOut :: "jsenv \<Rightarrow> string \<Rightarrow> kpfeed \<Rightarrow> kpout" where
  "kpOut env clock feed =
     (let rows = kp_rows feed;
          last8 = drop (length rows - 8) rows;
          vals = map (\<lambda>r. round1 (toNumber env (field r (kpKey (kp_headers feed))))) last8
      in \<lparr>kp_updatedAt = clock,
          kp_now = (if vals = [] then None else last vals),
          kp_labels = map (\<lambda>r. fmtDayHour env (time_tag r)) last8,
          kp_values = vals\<rparr>)"

definition fetchKp :: "jsenv \<Rightarrow> string \<Rightarrow> kpfeed fetched \<Rightarrow> kpout \<Rightarrow> kpout" where
  "fetchKp env clock res mock =
     (case res of
        Response ok s (Some feed) \<Rightarrow>
          if \<not> ok then mock
          else if kp_rows feed = [] then mock
          else kpOut env clock feed
      | _ \<Rightarrow> mock)"

definition getKp ::
  "jsenv \<Rightarrow> int \<Rightarrow> string \<Rightarrow> kpfeed fetched \<Rightarrow> kpout \<Rightarrow> 'rx server \<Rightarrow> kpout \<times> 'rx server" where
  "getKp env now clock res mock st =
     (case e_data (c_kp st) of
        Some d \<Rightarrow>
          if now - e_ts (c_kp st) < TTL_MS then (d, st)
          else
            (let out = fetchKp env clock res mock
             in (out, st\<lparr>c_kp := \<lparr>e_data = Some out, e_ts = now\<rparr>,
                        requests := requests st @ [SWPC_KP]\<rparr>))
      | None \<Rightarrow>
          (let out = fetchKp env clock res mock
           in (out, st\<lparr>c_kp := \<lparr>e_data = Some out, e_ts = now\<rparr>,
                      requests := requests st @ [SWPC_KP]\<rparr>)))"

text \<open>\<open>getRx\<close> has no upstream: its data is \<open>mockRxData()\<close>.\<close>

definition getRx :: "int \<Rightarrow> 'rx \<Rightarrow> 'rx server \<Rightarrow> 'rx \<times> 'rx server" where
  "getRx now mock st =
     (case e_data (c_rx st) of
        Some d \<Rightarrow>
          if now - e_ts (c_rx st) < TTL_MS then (d, st)
          else (mock, st\<lparr>c_rx := \<lparr>e_data = Some mock, e_ts = now\<rparr>\<rparr>)
      | None \<Rightarrow> (mock, st\<lparr>c_rx := \<lparr>e_data = Some mock, e_ts = now\<rparr>\<rparr>))"

text \<open>
  \<open>getWeatherTemperature\<close>. \<open>Number.isFinite\<close> holds of finite numbers only; an
  invalid date makes \<open>toISOString\<close> throw, and the \<open>catch\<close> gives the payload without
  readings.
\<close>

definition finiteNumber :: "jsval \<Rightarrow> rat option" where
  "finiteNumber v = (case v of JNum r \<Rightarrow> Some r | _ \<Rightarrow> None)"

definition weatherFallback :: "string \<Rightarrow> rat \<Rightarrow> rat \<Rightarrow> weather" where
  "weatherFallback clock lat lon =
     \<lparr>w_updatedAt = clock, w_latitude = lat, w_longitude = lon,
      w_temperatureC = None, w_cloudCover = None, w_sourceUrl = None\<rparr>"

definition fetchWeather :: "jsenv \<Rightarrow> string \<Rightarrow> rat \<Rightarrow> rat \<Rightarrow> meteo fetched \<Rightarrow> weather" where
  "fetchWeather env clock lat lon res =
     (case res of
        Response ok s (Some cur) \<Rightarrow>
          if \<not> ok then weatherFallback clock lat lon
          else
            (let apiTime = (case m_time cur of
                              Some t \<Rightarrow> if t \<noteq> [] then t @ ''Z'' else clock
                            | None \<Rightarrow> clock)
             in case newDate env apiTime of
                  None \<Rightarrow> weatherFallback clock lat lon
                | Some d \<Rightarrow>
                    \<lparr>w_updatedAt = toISOString env d, w_latitude = lat, w_longitude = lon,
                     w_temperatureC = round1 (finiteNumber (m_temperature cur)),
                     w_cloudCover = finiteNumber (m_cloud cur),
                     w_sourceUrl = Some ''https://open-meteo.com/''\<rparr>)
      | _ \<Rightarrow> weatherFallback clock lat lon)"

definition weatherKey :: "jsenv \<Rightarrow> rat \<Rightarrow> rat \<Rightarrow> string" where
  "weatherKey env lat lon = toFixed4 env lat @ '','' @ toFixed4 env lon"

definition getWeatherTemperature ::
  "jsenv \<Rightarrow> int \<Rightarrow> string \<Rightarrow> meteo fetched \<Rightarrow> rat \<Rightarrow> rat \<Rightarrow> 'rx server
     \<Rightarrow> weather \<times> 'rx server" where
  "getWeatherTemperature env now clock res lat lon st =
     (let key = weatherKey env lat lon;
          miss = (let out = fetchWeather env clock lat lon res
                  in (out, st\<lparr>c_weatherTemp := (c_weatherTemp st)(key \<mapsto> \<lparr>e_data = out, e_ts = now\<rparr>),
                             requests := requests st @ [OPEN_METEO lat lon]\<rparr>))
      in case c_weatherTemp st key of
           Some ent \<Rightarrow> if now - e_ts ent < WEATHER_TTL_MS then (e_data ent, st) else miss
         | None \<Rightarrow> miss)"

text \<open>
  The magnetometer of a station. The answer's body is the list of rows that
  \<open>parseFmiMagnetometerXml\<close> makes of it; \<open>endTime\<close> is \<open>new Date()\<close> at the request, and
  \<open>mock\<close> is what \<open>mockFmiBxData(station, minutes)\<close> would build (its rows have no bz).
\<close>

definition FMI_STATION_IDS :: "(string \<times> int) list" where
  "FMI_STATION_IDS =
     [(''KEV'', 100007), (''MAS'', 100008), (''KIL'', 100009), (''IVA'', 129963),
      (''MUO'', 100010), (''PEL'', 100011), (''RAN'', 100012), (''OUJ'', 100013),
      (''MEK'', 100014), (''HAN'', 100015), (''NUR'', 100016), (''TAR'', 100017)]"

definition fmisid :: "string \<Rightarrow> int" where
  "fmisid stationCode = (case map_of FMI_STATION_IDS stationCode of Some n \<Rightarrow> n | None \<Rightarrow> 100007)"

definition fetchFmiMagnetometerData ::
  "jsenv \<Rightarrow> int \<Rightarrow> int \<Rightarrow> fmirow list fetched \<Rightarrow> fmirow list \<Rightarrow> fmirow list" where
  "fetchFmiMagnetometerData env endTime minutes res mock =
     (case res of
        Response ok s (Some rows) \<Rightarrow>
          if \<not> ok then mock
          else filter (\<lambda>row. case newDate env (fr_time row) of
                               Some t \<Rightarrow> endTime - minutes * 60 * 1000 \<le> t
                             | None \<Rightarrow> False) rows
      | _ \<Rightarrow> mock)"

text \<open>The decimal numeral of an integer, as a template string prints it.\<close>

fun decimalNat :: "nat \<Rightarrow> string" where
  "decimalNat n =
     (if n < 10 then [char_of (48 + n)] else decimalNat (n div 10) @ [char_of (48 + n mod 10)])"

text \<open>The same digits by a recursion on a bound of the number, for evaluation.\<close>

primrec digitsBounded :: "nat \<Rightarrow> nat \<Rightarrow> string" where
  "digitsBounded 0 n = [char_of (48 + n)]"
| "digitsBounded (Suc b) n =
     (if n < 10 then [char_of (48 + n)] else digitsBounded b (n div 10) @ [char_of (48 + n mod 10)])"

definition decimal :: "int \<Rightarrow> string" where
  "decimal i = (if i < 0 then CHR ''-'' # decimalNat (nat (- i)) else decimalNat (nat i))"

definition bxKey :: "string \<Rightarrow> int \<Rightarrow> string" where
  "bxKey station minutes = station @ ''-'' @ decimal minutes"

definition bxData :: "string \<Rightarrow> string \<Rightarrow> int \<Rightarrow> fmirow list \<Rightarrow> bxdata" where
  "bxData clock station minutes rows =
     \<lparr>bx_station = station, bx_minutes = minutes, bx_stations = FMI_STATIONS, bx_rows = rows,
      bx_times = map fr_time rows, bx_bx = map fr_bx rows, bx_bz = map fr_bz rows,
      bx_updatedAt = (if rows \<noteq> [] then fr_time (last rows) else clock)\<rparr>"

definition getFmiBx ::
  "jsenv \<Rightarrow> int \<Rightarrow> string \<Rightarrow> int \<Rightarrow> fmirow list fetched \<Rightarrow> fmirow list \<Rightarrow> string \<Rightarrow> int
     \<Rightarrow> 'rx server \<Rightarrow> bxdata \<times> 'rx server" where
  "getFmiBx env now clock endTime res mock station minutes st =
     (let key = bxKey station minutes;
          miss = (let rows = fetchFmiMagnetometerData env endTime minutes res mock;
                      d = bxData clock station minutes rows
                  in (d, st\<lparr>c_fmiBx := (c_fmiBx st)(key \<mapsto> \<lparr>e_data = d, e_ts = now\<rparr>),
                           requests := requests st @ [FMI_OPEN_DATA (fmisid station) minutes]\<rparr>))
      in case c_fmiBx st key of
           Some ent \<Rightarrow> if now - e_ts ent < TTL_MS then (e_data ent, st) else miss
         | None \<Rightarrow> miss)"

section \<open>The request handlers\<close>

text \<open>
  The answer of a handler: \<open>res.json(data)\<close> with the default status 200,
  \<open>res.status(n).json({ error })\<close>, or an image sent with its content type. A query
  parameter is \<open>None\<close> when the request does not have it, and otherwise its string.
\<close>

datatype 'p reply = Json 'p | Error nat string | Image string string

fun status :: "'p reply \<Rightarrow> nat" where
  "status (Json d) = 200"
| "status (Error n msg) = n"
| "status (Image ct buf) = 200"

text \<open>\<open>q || d\<close> on a query parameter: a missing or empty parameter gives \<open>d\<close>.\<close>

definition orDefault :: "string option \<Rightarrow> string \<Rightarrow> string" where
  "orDefault q d = (case q of None \<Rightarrow> d | Some v \<Rightarrow> if v = [] then d else v)"

text \<open>\<open>toUpperCase\<close> and \<open>toLowerCase\<close>, on the letters of ASCII.\<close>

definition upperChar :: "char \<Rightarrow> char" where
  "upperChar c =
     (if 97 \<le> (of_char c :: nat) \<and> (of_char c :: nat) \<le> 122 then char_of ((of_char c :: nat) - 32) else c)"

definition lowerChar :: "char \<Rightarrow> char" where
  "lowerChar c =
     (if 65 \<le> (of_char c :: nat) \<and> (of_char c :: nat) \<le> 90 then char_of ((of_char c :: nat) + 32) else c)"

definition toUpperCase :: "string \<Rightarrow> string" where
  "toUpperCase s = map upperChar s"

definition toLowerCase :: "string \<Rightarrow> string" where
  "toLowerCase s = map lowerChar s"

text \<open>\<open>split(',')\<close> and \<open>trim()\<close>.\<close>

fun splitOn :: "char \<Rightarrow> string \<Rightarrow> string list" where
  "splitOn c [] = [[]]"
| "splitOn c (x # xs) =
     (if x = c then [] # splitOn c xs
      else (case splitOn c xs of
              w # ws \<Rightarrow> (x # w) # ws
            | [] \<Rightarrow> [[x]]))"

definition isSpace :: "char \<Rightarrow> bool" where
  "isSpace c = ((of_char c :: nat) \<in> {9, 10, 11, 12, 13, 32, 160})"

definition trim :: "string \<Rightarrow> string" where
  "trim s = rev (dropWhile isSpace (rev (dropWhile isSpace s)))"

subsection \<open>The handlers of the feeds\<close>

text \<open>
  Each handler wraps its fetcher in \<open>try\<close>; the model's fetchers are total (the code's
  catch every error of their own), so the handler's \<open>catch\<close> with its status 500 has no
  branch here.
\<close>

definition apiSolarwind ::
  "jsenv \<Rightarrow> int \<Rightarrow> string \<Rightarrow> swrow list fetched \<Rightarrow> swrow list fetched \<Rightarrow> swout
     \<Rightarrow> 'rx server \<Rightarrow> swout reply \<times> 'rx server" where
  "apiSolarwind env now clock plasmaRes magRes mock st =
     (case getSolarwind env now clock plasmaRes magRes mock st of (d, st') \<Rightarrow> (Json d, st'))"

definition apiKp ::
  "jsenv \<Rightarrow> int \<Rightarrow> string \<Rightarrow> kpfeed fetched \<Rightarrow> kpout \<Rightarrow> 'rx server \<Rightarrow> kpout reply \<times> 'rx server" where
  "apiKp env now clock res mock st =
     (case getKp env now clock res mock st of (d, st') \<Rightarrow> (Json d, st'))"

definition apiRx :: "int \<Rightarrow> 'rx \<Rightarrow> 'rx server \<Rightarrow> 'rx reply \<times> 'rx server" where
  "apiRx now mock st = (case getRx now mock st of (d, st') \<Rightarrow> (Json d, st'))"

definition coordOk :: "rat \<Rightarrow> rat option \<Rightarrow> bool" where
  "coordOk bound v = (case v of Some x \<Rightarrow> - bound \<le> x \<and> x \<le> bound | None \<Rightarrow> False)"

definition DEFAULT_LAT :: rat where
  "DEFAULT_LAT = 604728 / 10000"

definition DEFAULT_LON :: rat where
  "DEFAULT_LON = 263042 / 10000"

definition weatherLat :: "jsenv \<Rightarrow> string option \<Rightarrow> rat" where
  "weatherLat env q =
     (let lat = parseFloat env (case q of None \<Rightarrow> ''60.4728'' | Some v \<Rightarrow> v)
      in if coordOk 90 lat then the lat else DEFAULT_LAT)"

definition weatherLon :: "jsenv \<Rightarrow> string option \<Rightarrow> rat" where
  "weatherLon env q =
     (let lon = parseFloat env (case q of None \<Rightarrow> ''26.3042'' | Some v \<Rightarrow> v)
      in if coordOk 180 lon then the lon else DEFAULT_LON)"

definition apiWeather ::
  "jsenv \<Rightarrow> int \<Rightarrow> string \<Rightarrow> meteo fetched \<Rightarrow> string option \<Rightarrow> string option \<Rightarrow> 'rx server
     \<Rightarrow> weather reply \<times> 'rx server" where
  "apiWeather env now clock res qlat qlon st =
     (case getWeatherTemperature env now clock res (weatherLat env qlat) (weatherLon env qlon) st of
        (d, st') \<Rightarrow> (Json d, st'))"

definition bxStation :: "string option \<Rightarrow> string" where
  "bxStation q =
     (let qStationRaw = toUpperCase (orDefault q ''KEV'')
      in if qStationRaw \<in> set FMI_STATIONS then qStationRaw else ''KEV'')"

definition bxMinutes :: "jsenv \<Rightarrow> string option \<Rightarrow> int" where
  "bxMinutes env q =
     (let minutes = (case parseInt10 env (orDefault q ''60'') of Some m \<Rightarrow> m | None \<Rightarrow> 60)
      in max 5 (min 180 minutes))"

definition apiFmiBx ::
  "jsenv \<Rightarrow> int \<Rightarrow> string \<Rightarrow> int \<Rightarrow> fmirow list fetched \<Rightarrow> fmirow list
     \<Rightarrow> string option \<Rightarrow> string option \<Rightarrow> 'rx server \<Rightarrow> bxdata reply \<times> 'rx server" where
  "apiFmiBx env now clock endTime res mock qstation qminutes st =
     (case getFmiBx env now clock endTime res mock (bxStation qstation) (bxMinutes env qminutes) st of
        (d, st') \<Rightarrow> (Json d, st'))"

subsection \<open>The full-day text dump\<close>

text \<open>
  The body of the upstream answer is given as the lines that match the pattern of the
  handler, each with its time as an ISO string and its three numbers (\<open>None\<close> for NaN).
  \<open>minX\<close> starts at \<open>Infinity\<close> and \<open>maxX\<close> at \<open>-Infinity\<close>, which are \<open>None\<close> here.
\<close>

record sample =
  s_time :: string
  s_x :: "rat option"
  s_y :: "rat option"
  s_z :: "rat option"

record textdata =
  td_station :: string
  td_times :: "string list"
  td_bx :: "rat option list"
  td_by :: "rat option list"
  td_bz :: "rat option list"
  td_minX :: "rat option"
  td_maxX :: "rat option"
  td_minZ :: "rat option"
  td_maxZ :: "rat option"

fun runningMin :: "rat option \<Rightarrow> rat option list \<Rightarrow> rat option" where
  "runningMin acc [] = acc"
| "runningMin acc (None # vs) = runningMin acc vs"
| "runningMin None (Some v # vs) = runningMin (Some v) vs"
| "runningMin (Some m) (Some v # vs) = runningMin (if v < m then Some v else Some m) vs"

fun runningMax :: "rat option \<Rightarrow> rat option list \<Rightarrow> rat option" where
  "runningMax acc [] = acc"
| "runningMax acc (None # vs) = runningMax acc vs"
| "runningMax None (Some v # vs) = runningMax (Some v) vs"
| "runningMax (Some m) (Some v # vs) = runningMax (if v > m then Some v else Some m) vs"

definition validStations :: "string list" where
  "validStations = [''KEV'', ''MAS'', ''KIL'', ''IVA'', ''MUO'', ''PEL'', ''RAN'', ''OUJ'',
                    ''MEK'', ''HAN'', ''NUR'', ''TAR'', ''SOD'']"

definition textPayload :: "string \<Rightarrow> sample list \<Rightarrow> textdata" where
  "textPayload station samples =
     \<lparr>td_station = station, td_times = map s_time samples,
      td_bx = map s_x samples, td_by = map s_y samples, td_bz = map s_z samples,
      td_minX = runningMin None (map s_x samples), td_maxX = runningMax None (map s_x samples),
      td_minZ = runningMin None (map s_z samples), td_maxZ = runningMax None (map s_z samples)\<rparr>"

definition apiFmiTextdata ::
  "sample list fetched \<Rightarrow> string option \<Rightarrow> 'rx server \<Rightarrow> textdata reply \<times> 'rx server" where
  "apiFmiTextdata res qstation st =
     (let station = toUpperCase (orDefault qstation [])
      in if station \<notin> set validStations then (Error 400 ''Invalid station code'', st)
         else
           (let st' = st\<lparr>requests := requests st @ [FMI_TEXT station]\<rparr>
            in case res of
                 Response ok s (Some samples) \<Rightarrow>
                   if \<not> ok then (Error 500 ''Failed to fetch or parse data'', st')
                   else (Json (textPayload station samples), st')
               | _ \<Rightarrow> (Error 500 ''Failed to fetch or parse data'', st')))"

subsection \<open>The radar tile proxy\<close>

definition FMI_RADAR_LAYERS :: "string list" where
  "FMI_RADAR_LAYERS = [''Radar:radar_ppi_fikau_dbzv'', ''Radar:suomi_rr_eureffin'']"

record radarQuery =
  rq_layers :: "string option"
  rq_bbox :: "string option"
  rq_styles :: "string option"
  rq_time :: "string option"
  rq_tiled :: "string option"

definition radarLayers :: "string option \<Rightarrow> string list" where
  "radarLayers q =
     filter (\<lambda>l. l \<noteq> [] \<and> l \<in> set FMI_RADAR_LAYERS)
       (map trim (splitOn CHR '','' (orDefault q ''Radar:radar_ppi_fikau_dbzv'')))"

definition MERCATOR_MAX :: rat where
  "MERCATOR_MAX = 20037508342789244 / 1000000000"

definition clamp :: "rat \<Rightarrow> rat" where
  "clamp v = max (- MERCATOR_MAX) (min MERCATOR_MAX v)"

text \<open>The search of \<open>/\d{4}-\d{2}-\d{2}T\d{2}:\d{2}/\<close> in a string.\<close>

fun isoPrefix :: "string \<Rightarrow> bool" where
  "isoPrefix (y1 # y2 # y3 # y4 # d1 # m1 # m2 # d2 # a1 # a2 # t # h1 # h2 # c # n1 # n2 # rest) =
     (isDigit y1 \<and> isDigit y2 \<and> isDigit y3 \<and> isDigit y4 \<and> d1 = CHR ''-''
      \<and> isDigit m1 \<and> isDigit m2 \<and> d2 = CHR ''-'' \<and> isDigit a1 \<and> isDigit a2
      \<and> t = CHR ''T'' \<and> isDigit h1 \<and> isDigit h2 \<and> c = CHR '':'' \<and> isDigit n1 \<and> isDigit n2)"
| "isoPrefix _ = False"

fun isoLike :: "string \<Rightarrow> bool" where
  "isoLike [] = False"
| "isoLike (c # cs) = (isoPrefix (c # cs) \<or> isoLike cs)"

definition radarTime :: "string option \<Rightarrow> string option" where
  "radarTime q = (case q of Some v \<Rightarrow> if v \<noteq> [] \<and> isoLike v then Some v else None | None \<Rightarrow> None)"

definition imageType :: "string \<Rightarrow> string \<Rightarrow> string" where
  "imageType ct fallback = (if take 6 ct = ''image/'' then ct else fallback)"

text \<open>
  The body of the upstream answer is its bytes and its content type (in lower case, empty
  when the header is missing).
\<close>

definition radarParts :: "jsenv \<Rightarrow> radarQuery \<Rightarrow> rat option list" where
  "radarParts env q = map (parseFloat env) (splitOn CHR '','' (orDefault (rq_bbox q) []))"

definition radarKeyOf :: "jsenv \<Rightarrow> radarQuery \<Rightarrow> radarKey" where
  "radarKeyOf env q =
     \<lparr>rk_layers = radarLayers (rq_layers q),
      rk_bbox = map (\<lambda>n. clamp (the n)) (radarParts env q),
      rk_styles = orDefault (rq_styles q) [],
      rk_time = radarTime (rq_time q),
      rk_tiled = (toLowerCase (orDefault (rq_tiled q) []) = ''true'')\<rparr>"

definition radarRequest :: "radarKey \<Rightarrow> request" where
  "radarRequest key =
     FMI_WMS (rk_layers key) (rk_bbox key) (rk_styles key) (rk_time key) (rk_tiled key)"

definition apiFmiRadar ::
  "jsenv \<Rightarrow> int \<Rightarrow> tile fetched \<Rightarrow> radarQuery \<Rightarrow> 'rx server \<Rightarrow> unit reply \<times> 'rx server" where
  "apiFmiRadar env now res q st =
     (if radarLayers (rq_layers q) = [] then (Error 400 ''Invalid or missing layers'', st)
      else if length (radarParts env q) \<noteq> 4 \<or> (\<exists>n \<in> set (radarParts env q). n = None)
      then (Error 400 ''Invalid bbox'', st)
      else
        (let key = radarKeyOf env q;
             st' = st\<lparr>requests := requests st @ [radarRequest key]\<rparr>;
             upstream =
               (case res of
                  Failed \<Rightarrow> (Error 502 ''Failed to fetch radar tile'', st')
                | Response ok code body \<Rightarrow>
                    if \<not> ok then (Error 502 (''Upstream '' @ decimal (int code)), st')
                    else (case body of
                            None \<Rightarrow> (Error 502 ''Failed to fetch radar tile'', st')
                          | Some t \<Rightarrow>
                              (let contentType = imageType (t_ct t) ''image/png''
                               in (Image contentType (t_buf t),
                                   st'\<lparr>c_fmiRadar := (c_fmiRadar st')
                                        (key \<mapsto> \<lparr>e_data = \<lparr>t_buf = t_buf t, t_ct = contentType\<rparr>,
                                                  e_ts = now\<rparr>)\<rparr>))))
         in case c_fmiRadar st key of
              Some ent \<Rightarrow>
                if now - e_ts ent < TTL_MS
                then (Image (t_ct (e_data ent)) (t_buf (e_data ent)), st)
                else upstream
            | None \<Rightarrow> upstream))"

subsection \<open>The solar image proxy\<close>

text \<open>
  \<open>SOLAR_IMG_SOURCES[key]\<close> on an object literal with one property: the key of that
  property gives its URL, a key that the object inherits from \<open>Object.prototype\<close> gives a
  value that is truthy and no URL (the request then throws before it is sent), and any
  other key gives \<open>undefined\<close>.
\<close>

datatype lookup = Own string | Inherited | Absent

definition objectPrototypeKeys :: "string list" where
  "objectPrototypeKeys =
     [''constructor'', ''hasOwnProperty'', ''isPrototypeOf'', ''propertyIsEnumerable'',
      ''toLocaleString'', ''toString'', ''valueOf'', ''__proto__'', ''__defineGetter__'',
      ''__defineSetter__'', ''__lookupGetter__'', ''__lookupSetter__'']"

definition SOLAR_IMG_SOURCES :: "string \<Rightarrow> lookup" where
  "SOLAR_IMG_SOURCES key =
     (if key = ''soho_sunspot'' then Own ''https://soho.nascom.nasa.gov/data/sunspot/latest.jpg''
      else if key \<in> set objectPrototypeKeys then Inherited
      else Absent)"

text \<open>The content type of the body is empty when the header is missing.\<close>

definition apiSolarimage ::
  "tile fetched \<Rightarrow> string option \<Rightarrow> 'rx server \<Rightarrow> unit reply \<times> 'rx server" where
  "apiSolarimage res qsrc st =
     (case SOLAR_IMG_SOURCES (orDefault qsrc ''soho_sunspot'') of
        Absent \<Rightarrow> (Error 400 ''Invalid image source'', st)
      | Inherited \<Rightarrow> (Error 502 ''Failed to fetch solar image'', st)
      | Own url \<Rightarrow>
          (let st' = st\<lparr>requests := requests st @ [SOLAR_IMAGE url]\<rparr>
           in case res of
                Response ok code (Some t) \<Rightarrow>
                  if \<not> ok then (Error 502 ''Failed to fetch solar image'', st')
                  else (Image (imageType (orDefault (Some (t_ct t)) ''image/jpeg'') ''image/jpeg'')
                          (t_buf t), st')
              | _ \<Rightarrow> (Error 502 ''Failed to fetch solar image'', st')))"

section \<open>Predicates of the specification\<close>

text \<open>
  An upstream failure: the request fails, the status is not a success, or the body cannot
  be read or parsed.
\<close>

definition upstreamFailed :: "'b fetched \<Rightarrow> bool" where
  "upstreamFailed res = (case res of Failed \<Rightarrow> True | Response ok code body \<Rightarrow> \<not> ok \<or> body = None)"

text \<open>The arrays of a magnetometer payload run parallel to its rows.\<close>

definition bxWellFormed :: "bxdata \<Rightarrow> bool" where
  "bxWellFormed d =
     (bx_times d = map fr_time (bx_rows d) \<and> bx_bx d = map fr_bx (bx_rows d)
      \<and> bx_bz d = map fr_bz (bx_rows d)
      \<and> (bx_rows d \<noteq> [] \<longrightarrow> bx_updatedAt d = fr_time (last (bx_rows d))))"

definition bxCacheOk :: "'rx server \<Rightarrow> bool" where
  "bxCacheOk st = (\<forall>k ent. c_fmiBx st k = Some ent \<longrightarrow> bxWellFormed (e_data ent))"

text \<open>
  The states the server can be in: it starts with an empty cache, and every request and
  every call of the cache warmer takes it from one state to the next.
\<close>

inductive reachable :: "jsenv \<Rightarrow> 'rx server \<Rightarrow> bool" for env :: jsenv where
  start: "reachable env initialServer"
| solarwind: "reachable env st \<Longrightarrow>
    reachable env (snd (apiSolarwind env now clock plasmaRes magRes mock st))"
| kp: "reachable env st \<Longrightarrow> reachable env (snd (apiKp env now clock kres kmock st))"
| rx: "reachable env st \<Longrightarrow> reachable env (snd (apiRx now rmock st))"
| weather: "reachable env st \<Longrightarrow> reachable env (snd (apiWeather env now clock wres qlat qlon st))"
| fmiBx: "reachable env st \<Longrightarrow>
    reachable env (snd (apiFmiBx env now clock endTime bres bmock qstation qminutes st))"
| warm: "reachable env st \<Longrightarrow>
    reachable env (snd (getFmiBx env now clock endTime bres bmock station minutes st))"
| textdata: "reachable env st \<Longrightarrow> reachable env (snd (apiFmiTextdata tres qstation st))"
| radar: "reachable env st \<Longrightarrow> reachable env (snd (apiFmiRadar env now rres q st))"
| solarimage: "reachable env st \<Longrightarrow> reachable env (snd (apiSolarimage ires qsrc st))"

text \<open>
  A keyed cache has no entry younger than its TTL under the key of the call; a radar
  query passes the checks of its layers and of its bounding box.
\<close>

definition weatherStale :: "jsenv \<Rightarrow> int \<Rightarrow> rat \<Rightarrow> rat \<Rightarrow> 'rx server \<Rightarrow> bool" where
  "weatherStale env now lat lon st =
     (case c_weatherTemp st (weatherKey env lat lon) of
        None \<Rightarrow> True
      | Some ent \<Rightarrow> WEATHER_TTL_MS \<le> now - e_ts ent)"

definition bxStale :: "int \<Rightarrow> string \<Rightarrow> int \<Rightarrow> 'rx server \<Rightarrow> bool" where
  "bxStale now station minutes st =
     (case c_fmiBx st (bxKey station minutes) of
        None \<Rightarrow> True
      | Some ent \<Rightarrow> TTL_MS \<le> now - e_ts ent)"

definition radarStale :: "jsenv \<Rightarrow> int \<Rightarrow> radarQuery \<Rightarrow> 'rx server \<Rightarrow> bool" where
  "radarStale env now q st =
     (case c_fmiRadar st (radarKeyOf env q) of
        None \<Rightarrow> True
      | Some ent \<Rightarrow> TTL_MS \<le> now - e_ts ent)"

definition radarValid :: "jsenv \<Rightarrow> radarQuery \<Rightarrow> bool" where
  "radarValid env q =
     (radarLayers (rq_layers q) \<noteq> [] \<and> length (radarParts env q) = 4
      \<and> list_all (\<lambda>n. n \<noteq> None) (radarParts env q))"

subsection \<open>The strict join, as the specification words it\<close>

definition tags :: "swrow list \<Rightarrow> swrow list \<Rightarrow> string set" where
  "tags plasma mag = time_tag ` set plasma \<union> time_tag ` set mag"

text \<open>Both feeds have a record at \<open>t\<close> and the four required fields resolve there.\<close>

definition joinable :: "jsenv \<Rightarrow> swrow list \<Rightarrow> swrow list \<Rightarrow> string \<Rightarrow> bool" where
  "joinable env plasma mag t =
     (t \<in> time_tag ` set plasma \<and> t \<in> time_tag ` set mag
      \<and> pick env (mapGet mag t) bzKeys \<noteq> None \<and> pick env (mapGet mag t) btKeys \<noteq> None
      \<and> pick env (mapGet plasma t) speedKeys \<noteq> None
      \<and> pick env (mapGet plasma t) densityKeys \<noteq> None)"


subsection \<open>The latest finite value of a series\<close>

definition lastFinite :: "'a option list \<Rightarrow> 'a option" where
  "lastFinite xs =
     (let ys = filter (\<lambda>v. v \<noteq> None) xs in if ys = [] then None else last ys)"

section \<open>A concrete runtime and concrete feeds\<close>

text \<open>
  A runtime whose local time is two hours ahead of UTC, on the timestamps of the first of
  January 2024: the date, a space or a \<open>T\<close>, the time of day, and then nothing (the
  string is read as local time), a \<open>Z\<close> or \<open>.000Z\<close> (it is read as UTC). Every other
  string is an invalid date.
\<close>

definition digitVal :: "char \<Rightarrow> int" where
  "digitVal c = int (of_char c) - 48"

fun twoDigits :: "string \<Rightarrow> int option" where
  "twoDigits [a, b] =
     (if isDigit a \<and> isDigit b then Some (10 * digitVal a + digitVal b) else None)"
| "twoDigits _ = None"

definition pad2 :: "int \<Rightarrow> string" where
  "pad2 n = [char_of (48 + n div 10), char_of (48 + n mod 10)]"

definition dayStart :: int where
  "dayStart = 1704067200000"

definition localOffset :: int where
  "localOffset = 7200000"

definition timeOfDay :: "string \<Rightarrow> int option" where
  "timeOfDay s =
     (case (twoDigits (take 2 s), twoDigits (take 2 (drop 3 s)), twoDigits (take 2 (drop 6 s))) of
        (Some h, Some m, Some sec) \<Rightarrow>
          if length s = 8 \<and> s ! 2 = CHR '':'' \<and> s ! 5 = CHR '':'' \<and> h < 24 \<and> m < 60 \<and> sec < 60
          then Some (((h * 60 + m) * 60 + sec) * 1000) else None
      | _ \<Rightarrow> None)"

definition dateAt :: "int \<Rightarrow> string \<Rightarrow> int option" where
  "dateAt offset s =
     (if take 10 s = ''2024-01-01'' \<and> 19 \<le> length s \<and> (s ! 10 = CHR '' '' \<or> s ! 10 = CHR ''T'')
      then (case timeOfDay (take 8 (drop 11 s)) of
              None \<Rightarrow> None
            | Some ms \<Rightarrow>
                if drop 19 s = [] then Some (dayStart + ms - offset)
                else if drop 19 s = ''Z'' \<or> drop 19 s = ''.000Z'' then Some (dayStart + ms)
                else None)
      else None)"

definition exampleDate :: "string \<Rightarrow> int option" where
  "exampleDate = dateAt localOffset"

definition clockString :: "int \<Rightarrow> string" where
  "clockString ms =
     pad2 (ms div 3600000) @ '':'' @ pad2 (ms div 60000 mod 60) @ '':'' @ pad2 (ms div 1000 mod 60)"

definition exampleISO :: "int \<Rightarrow> string" where
  "exampleISO t =
     (if dayStart \<le> t \<and> t < dayStart + 86400000 \<and> (t - dayStart) mod 1000 = 0
      then ''2024-01-01T'' @ clockString (t - dayStart) @ ''.000Z''
      else ''1970-01-01T00:00:00.000Z'')"

definition exampleHM :: "string \<Rightarrow> string" where
  "exampleHM s =
     (case exampleDate s of
        None \<Rightarrow> ''NaN:NaN''
      | Some t \<Rightarrow> take 5 (clockString ((t + localOffset - dayStart) mod 86400000)))"

text \<open>
  \<open>parseFloat\<close> and \<open>parseInt\<close> on plain decimal numerals: leading white space, a sign,
  digits and (for \<open>parseFloat\<close>) a fraction; what follows is ignored, and a string with
  no digit gives NaN. \<open>toFixed(4)\<close> rounds to four decimals.
\<close>

definition digitsVal :: "string \<Rightarrow> int" where
  "digitsVal ds = foldl (\<lambda>a c. 10 * a + digitVal c) 0 ds"

definition unsignedPart :: "string \<Rightarrow> bool \<times> string" where
  "unsignedPart s =
     (case dropWhile isSpace s of
        c # r \<Rightarrow> if c = CHR ''-'' then (True, r) else if c = CHR ''+'' then (False, r) else (False, c # r)
      | [] \<Rightarrow> (False, []))"

definition exampleFloat :: "string \<Rightarrow> rat option" where
  "exampleFloat s =
     (case unsignedPart s of
        (neg, r) \<Rightarrow>
          (let ip = takeWhile isDigit r;
               fp = (case dropWhile isDigit r of
                       c # f \<Rightarrow> if c = CHR ''.'' then takeWhile isDigit f else []
                     | [] \<Rightarrow> []);
               v = of_int (digitsVal ip) + of_int (digitsVal fp) / 10 ^ length fp
           in if ip = [] \<and> fp = [] then None else Some (if neg then - v else v)))"

definition exampleInt :: "string \<Rightarrow> int option" where
  "exampleInt s =
     (case unsignedPart s of
        (neg, r) \<Rightarrow>
          (let ip = takeWhile isDigit r
           in if ip = [] then None else Some (if neg then - digitsVal ip else digitsVal ip)))"

definition exampleFixed4 :: "rat \<Rightarrow> string" where
  "exampleFixed4 r =
     (let n = math_round (\<bar>r\<bar> * 10000)
      in (if r < 0 then ''-'' else []) @ decimal (n div 10000) @ ''.''
         @ pad2 (n mod 10000 div 100) @ pad2 (n mod 100))"

definition exampleEnv :: jsenv where
  "exampleEnv =
     \<lparr>parseFloat = exampleFloat, newDate = exampleDate, toISOString = exampleISO,
      fmtHM = exampleHM, fmtDayHour = (\<lambda>s. ''01/01 '' @ take 2 (exampleHM s) @ '':00''),
      toFixed4 = exampleFixed4, parseInt10 = exampleInt, TIME_OFFSET_MIN = 0\<rparr>"

text \<open>The same runtime with its local time set to UTC.\<close>

definition utcEnv :: jsenv where
  "utcEnv = exampleEnv\<lparr>newDate := dateAt 0\<rparr>"

definition mkRow :: "string \<Rightarrow> (string \<times> jsval) list \<Rightarrow> swrow" where
  "mkRow t kvs = \<lparr>time_tag = t, field = (\<lambda>k. case map_of kvs k of Some v \<Rightarrow> v | None \<Rightarrow> JUndefined)\<rparr>"

text \<open>
  Feed A has the timestamps 12:01, 12:02, 12:03 and feed B has 12:02, 12:03, 12:04; the
  four fields are all finite at 12:03 only (the density is null at 12:02).
\<close>

definition feedA :: "swrow list" where
  "feedA =
     [mkRow ''2024-01-01 12:01:00'' [(''speed'', JNum 400), (''density'', JNum 5)],
      mkRow ''2024-01-01 12:02:00'' [(''speed'', JNum 410), (''density'', JNull)],
      mkRow ''2024-01-01 12:03:00'' [(''speed'', JNum (42004 / 100)), (''density'', JNum (6126 / 1000))]]"

definition feedB :: "swrow list" where
  "feedB =
     [mkRow ''2024-01-01 12:02:00'' [(''bz_gsm'', JNum (- 1)), (''bt'', JNum 5)],
      mkRow ''2024-01-01 12:03:00'' [(''bz_gsm'', JNum (- 234 / 100)), (''bt'', JNum 6)],
      mkRow ''2024-01-01 12:04:00'' [(''bz_gsm'', JNum (- 3)), (''bt'', JNum 7)]]"

text \<open>
  Feeds that never join: the plasma row has no density, and the magnetometer row names
  its field \<open>bz\<close>.
\<close>

definition feedNoDensity :: "swrow list" where
  "feedNoDensity = [mkRow ''2024-01-01 12:01:00'' [(''speed'', JNum 400)]]"

definition feedBzOnly :: "swrow list" where
  "feedBzOnly = [mkRow ''2024-01-01 12:01:00'' [(''bz'', JNum (- 32 / 10)), (''bt'', JNum 5)]]"

text \<open>
  Feeds that never join and whose latest finite values lie at three different timestamps.
\<close>

definition feedC :: "swrow list" where
  "feedC =
     [mkRow ''2024-01-01 12:01:00'' [(''speed'', JNum 400)],
      mkRow ''2024-01-01 12:02:00'' [(''density'', JNum 5)]]"

definition feedD :: "swrow list" where
  "feedD =
     [mkRow ''2024-01-01 12:02:00'' [(''bz_gsm'', JNum (- 1))],
      mkRow ''2024-01-01 12:03:00'' [(''bt'', JNum 5)]]"

text \<open>A mock payload, and two rows of a magnetometer answer.\<close>

definition mockSw :: swout where
  "mockSw =
     \<lparr>out_updatedAt = ''2024-01-01T12:00:00.000Z'',
      out_now = \<lparr>now_bz = Some 1, now_bt = Some 8, now_speed = Some 450, now_density = Some 6\<rparr>,
      out_labels = [''14:00''], out_times = [''2024-01-01T12:00:00.000Z''],
      out_speed = [Some 450], out_density = [Some 6], out_bz = [], out_bt = []\<rparr>"

definition mockKp :: kpout where
  "mockKp = \<lparr>kp_updatedAt = ''2024-01-01T12:00:00.000Z'', kp_now = Some 3,
             kp_labels = [''01/01 12:00''], kp_values = [Some 3]\<rparr>"

definition kpFeed :: kpfeed where
  "kpFeed = \<lparr>kp_headers = [''time_tag'', ''kp'', ''a_running'', ''station_count''],
             kp_rows = [mkRow ''2024-01-01 12:00:00'' [(''kp'', JNum (233 / 100))]]\<rparr>"

definition fmiRows :: "fmirow list" where
  "fmiRows =
     [\<lparr>fr_time = ''2024-01-01T12:01:00Z'', fr_bx = Some 10, fr_bz = Some (- 20), fr_station = None\<rparr>,
      \<lparr>fr_time = ''2024-01-01T12:02:00Z'', fr_bx = Some 11, fr_bz = None, fr_station = None\<rparr>]"

text \<open>A radar query for the default layer.\<close>

definition tileQuery :: radarQuery where
  "tileQuery = \<lparr>rq_layers = None, rq_bbox = Some ''0,0,1,1'', rq_styles = None, rq_time = None,
         rq_tiled = None\<rparr>"

text \<open>
  Two feeds whose time tags differ in form: the plasma tag has no zone designator, the
  magnetometer tag ends in \<open>Z\<close>.
\<close>

definition feedLocal :: "swrow list" where
  "feedLocal = [mkRow ''2024-01-01 12:30:00'' [(''speed'', JNum 400), (''density'', JNum 5)]]"

definition feedZulu :: "swrow list" where
  "feedZulu = [mkRow ''2024-01-01T11:00:00Z'' [(''bz_gsm'', JNum (- 1)), (''bt'', JNum 5)]]"

text \<open>An Open-Meteo answer.\<close>

definition meteoNow :: meteo where
  "meteoNow = \<lparr>m_time = Some ''2024-01-01T12:00:00'', m_temperature = JNum (- 307 / 100),
               m_cloud = JNum 40\<rparr>"

section \<open>Evaluation of the decimal numerals\<close>

lemma digitsBounded_decimalNat: "n \<le> b \<Longrightarrow> digitsBounded b n = decimalNat n"
proof (induction b arbitrary: n)
  case 0
  then show ?case by simp
next
  case (Suc b)
  show ?case
  proof (cases "n < 10")
    case True
    then show ?thesis by simp
  next
    case False
    with Suc.prems have "n div 10 \<le> b" by linarith
    from Suc.IH[OF this] False show ?thesis
      by (subst decimalNat.simps) simp
  qed
qed

lemma decimalNat_code [code]: "decimalNat n = digitsBounded n n"
  by (simp add: digitsBounded_decimalNat)

section \<open>Properties of the time alignment\<close>

lemma mapGet_None_iff: "mapGet rows t = None \<longleftrightarrow> t \<notin> time_tag ` set rows"
  by (auto simp: mapGet_def find_None_iff)

lemma set_firstOccurrences [simp]: "set (firstOccurrences xs) = set xs"
  by (simp add: firstOccurrences_def)

lemma distinct_firstOccurrences [simp]: "distinct (firstOccurrences xs)"
  by (simp add: firstOccurrences_def)

lemma set_sortedTimes: "set (sortedTimes env plasma mag) = tags plasma mag"
  by (simp add: sortedTimes_def unionTimes_def mapKeys_def tags_def)

lemma distinct_sortedTimes: "distinct (sortedTimes env plasma mag)"
  by (simp add: sortedTimes_def unionTimes_def)

lemma sorted_sortedTimes: "sorted (map (dateKey env) (sortedTimes env plasma mag))"
  by (simp add: sortedTimes_def)

lemma round1_None_iff [simp]: "round1 v = None \<longleftrightarrow> v = None"
  by (cases v) simp_all

lemma round2_None_iff [simp]: "round2 v = None \<longleftrightarrow> v = None"
  by (cases v) simp_all

lemma scanAligned_None:
  "scanAligned env plasma mag ts = None \<longleftrightarrow> (\<forall>u \<in> set ts. \<not> joinable env plasma mag u)"
  by (induction ts) (auto simp: joinable_def Let_def mapGet_None_iff)



lemma strictJoin_None:
  "strictJoin env plasma mag = None \<longleftrightarrow> (\<forall>u \<in> tags plasma mag. \<not> joinable env plasma mag u)"
  by (simp add: strictJoin_def scanAligned_None set_sortedTimes)




lemma dateKey_valid: "newDate env t = Some a \<Longrightarrow> dateKey env t = a"
  by (simp add: dateKey_def)





subsection \<open>The fallback snapshot\<close>

lemma firstSome_rev_snoc:
  "firstSome f (rev (xs @ [x])) = (case f x of Some v \<Rightarrow> Some v | None \<Rightarrow> firstSome f (rev xs))"
  by simp

lemma lastFinite_snoc:
  "lastFinite (xs @ [x]) = (case x of Some v \<Rightarrow> Some v | None \<Rightarrow> lastFinite xs)"
  by (cases x) (simp_all add: lastFinite_def Let_def)

lemma firstSome_rev_lastFinite: "firstSome f (rev xs) = lastFinite (map f xs)"
proof (induction xs rule: rev_induct)
  case Nil
  show ?case by (simp add: lastFinite_def)
next
  case (snoc x xs)
  then show ?case by (simp add: lastFinite_snoc split: option.splits)
qed

lemma latestFinite_lastFinite: "latestFinite arr = lastFinite arr"
  using firstSome_rev_lastFinite[of "\<lambda>v. v" arr] by (simp add: latestFinite_def)

lemma latestNonNull_lastFinite:
  "latestNonNull env rows key = lastFinite (map (\<lambda>r. toNumber env (field r key)) rows)"
  by (simp add: latestNonNull_def firstSome_rev_lastFinite)

lemma math_round_of_int: "math_round (of_int k) = k"
  unfolding math_round_def by linarith

lemma round1_idem: "round1 (round1 v) = round1 v"
  by (cases v) (simp_all add: math_round_of_int)

lemma round2_idem: "round2 (round2 v) = round2 v"
  by (cases v) (simp_all add: math_round_of_int)

lemma lastFinite_mem: "lastFinite xs = Some v \<Longrightarrow> Some v \<in> set xs"
proof -
  assume a: "lastFinite xs = Some v"
  let ?ys = "filter (\<lambda>v. v \<noteq> None) xs"
  from a have ne: "?ys \<noteq> []" and l: "last ?ys = Some v"
    by (auto simp: lastFinite_def Let_def split: if_splits)
  have "last ?ys \<in> set ?ys" using ne by (rule last_in_set)
  with l have "Some v \<in> set ?ys" by simp
  then show ?thesis by simp
qed

lemma lastFinite_map_round1:
  "lastFinite (map round1 xs) = Some v \<Longrightarrow> round1 (Some v) = Some v"
proof -
  assume "lastFinite (map round1 xs) = Some v"
  then have "Some v \<in> set (map round1 xs)" by (rule lastFinite_mem)
  then obtain x where "Some v = round1 x" by auto
  then show ?thesis by (metis round1_idem)
qed

lemma lastFinite_map_round2:
  "lastFinite (map round2 xs) = Some v \<Longrightarrow> round2 (Some v) = Some v"
proof -
  assume "lastFinite (map round2 xs) = Some v"
  then have "Some v \<in> set (map round2 xs)" by (rule lastFinite_mem)
  then obtain x where "Some v = round2 x" by auto
  then show ?thesis by (metis round2_idem)
qed

lemma speedSeries_round: "speedSeries env plasma win = map round1 (map (\<lambda>t. pick env (mapGet plasma t) speedKeys) win)"
  by (simp add: speedSeries_def)

lemma densitySeries_round: "densitySeries env plasma win = map round2 (map (\<lambda>t. pick env (mapGet plasma t) densityKeys) win)"
  by (simp add: densitySeries_def)

lemma fallback_speed:
  "now_speed (fallbackNow env plasma mag) =
     (case lastFinite (speedSeries env plasma (tail60 (sortedTimes env plasma mag))) of
        Some v \<Rightarrow> Some v
      | None \<Rightarrow> round1 (lastFinite (map (\<lambda>r. toNumber env (field r ''speed'')) plasma)))"
  using lastFinite_map_round1[of "map (\<lambda>t. pick env (mapGet plasma t) speedKeys) (tail60 (sortedTimes env plasma mag))"]
  by (auto simp: fallbackNow_def Let_def orElse_def latestFinite_lastFinite latestNonNull_lastFinite speedSeries_round
      simp del: round1.simps split: option.splits)

lemma fallback_density:
  "now_density (fallbackNow env plasma mag) =
     (case lastFinite (densitySeries env plasma (tail60 (sortedTimes env plasma mag))) of
        Some v \<Rightarrow> Some v
      | None \<Rightarrow> round2 (lastFinite (map (\<lambda>r. toNumber env (field r ''density'')) plasma)))"
  using lastFinite_map_round2[of "map (\<lambda>t. pick env (mapGet plasma t) densityKeys) (tail60 (sortedTimes env plasma mag))"]
  by (auto simp: fallbackNow_def Let_def orElse_def latestFinite_lastFinite latestNonNull_lastFinite densitySeries_round
      simp del: round2.simps split: option.splits)

lemma out_now_fallback:
  "strictJoin env plasma mag = None \<Longrightarrow>
     out_now (solarwindOut env clock plasma mag) = fallbackNow env plasma mag"
  by (simp add: solarwindOut_def Let_def nullNow_def allNull_def)

text \<open>
  Claim C2, as the specification states it, fails: with no timestamp that joins, the bz of
  the snapshot is not the latest finite value of the bz chart series. Here the chart
  series holds -3.2 (picked under the key \<open>bz\<close>) and the snapshot's bz is null.
\<close>

theorem fallback_bz_not_from_chart_series:
  "strictJoin exampleEnv feedNoDensity feedBzOnly = None
   \<and> out_bz (solarwindOut exampleEnv [] feedNoDensity feedBzOnly) = [Some (- 32 / 10)]
   \<and> lastFinite (out_bz (solarwindOut exampleEnv [] feedNoDensity feedBzOnly)) = Some (- 32 / 10)
   \<and> now_bz (out_now (solarwindOut exampleEnv [] feedNoDensity feedBzOnly)) = None"
  by code_simp

text \<open>
  Claim C2, amended. When no timestamp of the union satisfies the strict join, the speed
  and the density of the snapshot are each the latest finite value of their own chart
  series when that series has one, and otherwise the rounded latest finite value under
  the key \<open>speed\<close> (\<open>density\<close>) of the plasma feed in feed order; bz and bt are the rounded
  latest finite values under the keys \<open>bz_gsm\<close> and \<open>bt\<close> of the magnetometer feed in
  feed order. The four fields may come from different timestamps.
\<close>

theorem fallback_snapshot_sources:
  assumes valid: "\<forall>u \<in> tags plasma mag. newDate env u \<noteq> None"
    and nojoin: "\<forall>u \<in> tags plasma mag. \<not> joinable env plasma mag u"
  shows "now_speed (out_now (solarwindOut env clock plasma mag)) =
           (case lastFinite (out_speed (solarwindOut env clock plasma mag)) of
              Some v \<Rightarrow> Some v
            | None \<Rightarrow> round1 (lastFinite (map (\<lambda>r. toNumber env (field r ''speed'')) plasma)))
         \<and> now_density (out_now (solarwindOut env clock plasma mag)) =
           (case lastFinite (out_density (solarwindOut env clock plasma mag)) of
              Some v \<Rightarrow> Some v
            | None \<Rightarrow> round2 (lastFinite (map (\<lambda>r. toNumber env (field r ''density'')) plasma)))
         \<and> now_bz (out_now (solarwindOut env clock plasma mag)) =
             round1 (lastFinite (map (\<lambda>r. toNumber env (field r ''bz_gsm'')) mag))
         \<and> now_bt (out_now (solarwindOut env clock plasma mag)) =
             round1 (lastFinite (map (\<lambda>r. toNumber env (field r ''bt'')) mag))"
proof -
  from nojoin have sj: "strictJoin env plasma mag = None" by (simp add: strictJoin_None)
  have now: "out_now (solarwindOut env clock plasma mag) = fallbackNow env plasma mag"
    by (rule out_now_fallback[OF sj])
  have sp: "out_speed (solarwindOut env clock plasma mag) =
      speedSeries env plasma (tail60 (sortedTimes env plasma mag))"
    by (simp add: solarwindOut_def Let_def)
  have de: "out_density (solarwindOut env clock plasma mag) =
      densitySeries env plasma (tail60 (sortedTimes env plasma mag))"
    by (simp add: solarwindOut_def Let_def)
  have bz: "now_bz (fallbackNow env plasma mag) =
      round1 (lastFinite (map (\<lambda>r. toNumber env (field r ''bz_gsm'')) mag))"
    by (simp add: fallbackNow_def Let_def latestNonNull_lastFinite)
  have bt: "now_bt (fallbackNow env plasma mag) =
      round1 (lastFinite (map (\<lambda>r. toNumber env (field r ''bt'')) mag))"
    by (simp add: fallbackNow_def Let_def latestNonNull_lastFinite)
  show ?thesis
    by (simp only: now sp de fallback_speed fallback_density bz bt)
qed

theorem fallback_snapshot_sources_witness:
  "tags feedC feedD = {''2024-01-01 12:01:00'', ''2024-01-01 12:02:00'', ''2024-01-01 12:03:00''}
   \<and> newDate exampleEnv ''2024-01-01 12:01:00'' = Some 1704103260000
   \<and> newDate exampleEnv ''2024-01-01 12:02:00'' = Some 1704103320000
   \<and> newDate exampleEnv ''2024-01-01 12:03:00'' = Some 1704103380000
   \<and> \<not> joinable exampleEnv feedC feedD ''2024-01-01 12:01:00''
   \<and> \<not> joinable exampleEnv feedC feedD ''2024-01-01 12:02:00''
   \<and> \<not> joinable exampleEnv feedC feedD ''2024-01-01 12:03:00''
   \<and> out_speed (solarwindOut exampleEnv [] feedC feedD) = [Some 400, None, None]
   \<and> out_density (solarwindOut exampleEnv [] feedC feedD) = [None, Some 5, None]
   \<and> now_speed (out_now (solarwindOut exampleEnv [] feedC feedD)) = Some 400
   \<and> now_density (out_now (solarwindOut exampleEnv [] feedC feedD)) = Some 5
   \<and> now_bz (out_now (solarwindOut exampleEnv [] feedC feedD)) = Some (- 1)
   \<and> now_bt (out_now (solarwindOut exampleEnv [] feedC feedD)) = Some 5"
proof -
  have tg: "tags feedC feedD =
      {''2024-01-01 12:01:00'', ''2024-01-01 12:02:00'', ''2024-01-01 12:03:00''}"
    by (auto simp: tags_def feedC_def feedD_def mkRow_def)
  have dates: "newDate exampleEnv ''2024-01-01 12:01:00'' = Some 1704103260000"
    "newDate exampleEnv ''2024-01-01 12:02:00'' = Some 1704103320000"
    "newDate exampleEnv ''2024-01-01 12:03:00'' = Some 1704103380000"
    by code_simp+
  have nj: "\<not> joinable exampleEnv feedC feedD ''2024-01-01 12:01:00''"
    "\<not> joinable exampleEnv feedC feedD ''2024-01-01 12:02:00''"
    "\<not> joinable exampleEnv feedC feedD ''2024-01-01 12:03:00''"
    by code_simp+
  have valid: "\<forall>u \<in> tags feedC feedD. newDate exampleEnv u \<noteq> None"
    using dates by (simp add: tg)
  have nojoin: "\<forall>u \<in> tags feedC feedD. \<not> joinable exampleEnv feedC feedD u"
    using nj by (simp add: tg)
  have series: "out_speed (solarwindOut exampleEnv [] feedC feedD) = [Some 400, None, None]"
    "out_density (solarwindOut exampleEnv [] feedC feedD) = [None, Some 5, None]"
    by code_simp+
  have raw: "round1 (lastFinite (map (\<lambda>r. toNumber exampleEnv (field r ''bz_gsm'')) feedD)) = Some (- 1)"
    "round1 (lastFinite (map (\<lambda>r. toNumber exampleEnv (field r ''bt'')) feedD)) = Some 5"
    by code_simp+
  have lf: "lastFinite [Some (400 :: rat), None, None] = Some 400"
    "lastFinite [None, Some (5 :: rat), None] = Some 5"
    by (simp_all add: lastFinite_def)
  from fallback_snapshot_sources[OF valid nojoin, of "[]"]
  have "now_speed (out_now (solarwindOut exampleEnv [] feedC feedD)) = Some 400
   \<and> now_density (out_now (solarwindOut exampleEnv [] feedC feedD)) = Some 5
   \<and> now_bz (out_now (solarwindOut exampleEnv [] feedC feedD)) = Some (- 1)
   \<and> now_bt (out_now (solarwindOut exampleEnv [] feedC feedD)) = Some 5"
    by (simp add: series raw lf)
  with tg dates nj series show ?thesis by simp
qed

subsection \<open>The chart window\<close>

lemma length_sortedTimes: "length (sortedTimes env plasma mag) = card (tags plasma mag)"
  using distinct_card[OF distinct_sortedTimes[of env plasma mag]]
  by (simp add: set_sortedTimes)

lemma length_tail60: "length (tail60 xs) = min 60 (length xs)"
  by (simp add: tail60_def)

lemma sorted_tail60: "sorted (map f xs) \<Longrightarrow> sorted (map f (tail60 xs))"
  by (simp add: tail60_def drop_map[symmetric] sorted_wrt_drop del: drop_map)

lemma tail60_split: "xs = take (length xs - 60) xs @ tail60 xs"
  by (simp add: tail60_def)

lemma tail60_older:
  assumes "sorted (map f xs)" "a \<in> set (take (length xs - 60) xs)" "b \<in> set (tail60 xs)"
  shows "f a \<le> f b"
proof -
  have "sorted (map f (take (length xs - 60) xs @ tail60 xs))"
    using assms(1) tail60_split[of xs] by simp
  with assms(2,3) show ?thesis by (simp add: sorted_append)
qed

lemma sorted_map_mono:
  assumes "sorted (map f xs)" "\<forall>a \<in> set xs. \<forall>b \<in> set xs. f a \<le> f b \<longrightarrow> g (h a) \<le> g (h b)"
  shows "sorted (map g (map h xs))"
  using assms by (induction xs) auto



text \<open>
  What holds of the chart window on every pair of feeds whose time tags are valid dates:
  the series is built over the union of the two feeds' timestamps, without duplicates,
  sorted ascending by the date value of the tags as \<open>new Date\<close> reads them and cut to
  its last 60 entries; every timestamp left out is no later than every timestamp kept,
  there are at most 60 output times, and the labels and the speed, density, bz and bt
  arrays have the same length. The output times are the kept timestamps as
  \<open>parseToUTC\<close> reads them, so they ascend only when that second reading keeps the
  order of the first.
\<close>

lemma chart_series_window:
  assumes valid: "\<forall>u \<in> tags plasma mag. newDate env u \<noteq> None"
  shows "set (sortedTimes env plasma mag) = tags plasma mag
       \<and> distinct (sortedTimes env plasma mag)
       \<and> sorted (map (dateKey env) (sortedTimes env plasma mag))
       \<and> length (out_times (solarwindOut env clock plasma mag)) = min 60 (card (tags plasma mag))
       \<and> out_times (solarwindOut env clock plasma mag) =
           map (outTime env) (tail60 (sortedTimes env plasma mag))
       \<and> sorted (map (dateKey env) (tail60 (sortedTimes env plasma mag)))
       \<and> (\<forall>a \<in> tags plasma mag. a \<notin> set (tail60 (sortedTimes env plasma mag)) \<longrightarrow>
             (\<forall>b \<in> set (tail60 (sortedTimes env plasma mag)). dateKey env a \<le> dateKey env b))
       \<and> length (out_times (solarwindOut env clock plasma mag)) \<le> 60
       \<and> length (out_labels (solarwindOut env clock plasma mag)) =
           length (out_times (solarwindOut env clock plasma mag))
       \<and> length (out_speed (solarwindOut env clock plasma mag)) =
           length (out_times (solarwindOut env clock plasma mag))
       \<and> length (out_density (solarwindOut env clock plasma mag)) =
           length (out_times (solarwindOut env clock plasma mag))
       \<and> length (out_bz (solarwindOut env clock plasma mag)) =
           length (out_times (solarwindOut env clock plasma mag))
       \<and> length (out_bt (solarwindOut env clock plasma mag)) =
           length (out_times (solarwindOut env clock plasma mag))
       \<and> ((\<forall>a \<in> tags plasma mag. \<forall>b \<in> tags plasma mag. dateKey env a \<le> dateKey env b \<longrightarrow>
               dateKey env (outTime env a) \<le> dateKey env (outTime env b))
            \<longrightarrow> sorted (map (dateKey env) (out_times (solarwindOut env clock plasma mag))))"
proof -
  let ?ts = "sortedTimes env plasma mag"
  let ?out = "solarwindOut env clock plasma mag"
  have ot: "out_times ?out = map (outTime env) (tail60 ?ts)"
    by (simp add: solarwindOut_def Let_def)
  have srt: "sorted (map (dateKey env) ?ts)" by (rule sorted_sortedTimes)
  have len: "length (out_times ?out) = min 60 (card (tags plasma mag))"
    by (simp add: ot length_tail60 length_sortedTimes)
  have older: "\<forall>a \<in> tags plasma mag. a \<notin> set (tail60 ?ts) \<longrightarrow>
             (\<forall>b \<in> set (tail60 ?ts). dateKey env a \<le> dateKey env b)"
  proof (intro ballI impI)
    fix a b assume a: "a \<in> tags plasma mag" "a \<notin> set (tail60 ?ts)" and b: "b \<in> set (tail60 ?ts)"
    from a(1) have "a \<in> set ?ts" by (simp add: set_sortedTimes)
    then have "a \<in> set (take (length ?ts - 60) ?ts @ tail60 ?ts)"
      using tail60_split[of ?ts] by simp
    with a(2) have "a \<in> set (take (length ?ts - 60) ?ts)" by simp
    from tail60_older[OF srt this b] show "dateKey env a \<le> dateKey env b" .
  qed
  have sub: "set (tail60 ?ts) \<subseteq> tags plasma mag"
    using set_drop_subset[of "length ?ts - 60" ?ts] by (simp add: tail60_def set_sortedTimes)
  have mono: "(\<forall>a \<in> tags plasma mag. \<forall>b \<in> tags plasma mag. dateKey env a \<le> dateKey env b \<longrightarrow>
               dateKey env (outTime env a) \<le> dateKey env (outTime env b))
            \<longrightarrow> sorted (map (dateKey env) (out_times ?out))"
  proof
    assume m: "\<forall>a \<in> tags plasma mag. \<forall>b \<in> tags plasma mag. dateKey env a \<le> dateKey env b \<longrightarrow>
               dateKey env (outTime env a) \<le> dateKey env (outTime env b)"
    with sub have "\<forall>a \<in> set (tail60 ?ts). \<forall>b \<in> set (tail60 ?ts). dateKey env a \<le> dateKey env b \<longrightarrow>
               dateKey env (outTime env a) \<le> dateKey env (outTime env b)" by blast
    from sorted_map_mono[of "dateKey env" "tail60 ?ts" "dateKey env" "outTime env",
        OF sorted_tail60[OF srt] this]
    show "sorted (map (dateKey env) (out_times ?out))" by (simp only: ot)
  qed
  have lens: "length (out_labels ?out) = length (out_times ?out)"
    "length (out_speed ?out) = length (out_times ?out)"
    "length (out_density ?out) = length (out_times ?out)"
    "length (out_bz ?out) = length (out_times ?out)"
    "length (out_bt ?out) = length (out_times ?out)"
    by (simp_all add: solarwindOut_def Let_def speedSeries_def densitySeries_def bzSeries_def btSeries_def)
  have le: "length (out_times ?out) \<le> 60" by (simp add: len)
  show ?thesis
    using set_sortedTimes[of env plasma mag] distinct_sortedTimes[of env plasma mag] srt len ot
      sorted_tail60[OF srt] older le lens mono
    by blast
qed

lemma chart_series_window_example:
  "tags feedA feedB =
       {''2024-01-01 12:01:00'', ''2024-01-01 12:02:00'', ''2024-01-01 12:03:00'',
        ''2024-01-01 12:04:00''}
   \<and> newDate exampleEnv ''2024-01-01 12:01:00'' = Some 1704103260000
   \<and> newDate exampleEnv ''2024-01-01 12:02:00'' = Some 1704103320000
   \<and> newDate exampleEnv ''2024-01-01 12:03:00'' = Some 1704103380000
   \<and> newDate exampleEnv ''2024-01-01 12:04:00'' = Some 1704103440000
   \<and> out_times (solarwindOut exampleEnv [] feedA feedB) =
       [''2024-01-01T12:01:00.000Z'', ''2024-01-01T12:02:00.000Z'',
        ''2024-01-01T12:03:00.000Z'', ''2024-01-01T12:04:00.000Z'']
   \<and> out_labels (solarwindOut exampleEnv [] feedA feedB) = [''14:01'', ''14:02'', ''14:03'', ''14:04'']
   \<and> out_speed (solarwindOut exampleEnv [] feedA feedB) = [Some 400, Some 410, Some 420, None]
   \<and> out_bz (solarwindOut exampleEnv [] feedA feedB) = [None, Some (- 1), Some (- 23 / 10), Some (- 3)]
   \<and> length (out_times (solarwindOut exampleEnv [] feedA feedB)) = 4
   \<and> sorted (map (dateKey exampleEnv) (out_times (solarwindOut exampleEnv [] feedA feedB)))"
proof -
  have tg: "tags feedA feedB =
       {''2024-01-01 12:01:00'', ''2024-01-01 12:02:00'', ''2024-01-01 12:03:00'',
        ''2024-01-01 12:04:00''}"
    by (auto simp: tags_def feedA_def feedB_def mkRow_def)
  have dates: "newDate exampleEnv ''2024-01-01 12:01:00'' = Some 1704103260000"
    "newDate exampleEnv ''2024-01-01 12:02:00'' = Some 1704103320000"
    "newDate exampleEnv ''2024-01-01 12:03:00'' = Some 1704103380000"
    "newDate exampleEnv ''2024-01-01 12:04:00'' = Some 1704103440000"
    by code_simp+
  have valid: "\<forall>u \<in> tags feedA feedB. newDate exampleEnv u \<noteq> None"
    using dates by (simp add: tg)
  have keys: "dateKey exampleEnv (outTime exampleEnv ''2024-01-01 12:01:00'') = 1704110460000"
    "dateKey exampleEnv (outTime exampleEnv ''2024-01-01 12:02:00'') = 1704110520000"
    "dateKey exampleEnv (outTime exampleEnv ''2024-01-01 12:03:00'') = 1704110580000"
    "dateKey exampleEnv (outTime exampleEnv ''2024-01-01 12:04:00'') = 1704110640000"
    by code_simp+
  have mono: "\<forall>a \<in> tags feedA feedB. \<forall>b \<in> tags feedA feedB.
      dateKey exampleEnv a \<le> dateKey exampleEnv b \<longrightarrow>
      dateKey exampleEnv (outTime exampleEnv a) \<le> dateKey exampleEnv (outTime exampleEnv b)"
    using dates by (simp add: tg keys dateKey_valid)
  have vals: "out_times (solarwindOut exampleEnv [] feedA feedB) =
       [''2024-01-01T12:01:00.000Z'', ''2024-01-01T12:02:00.000Z'',
        ''2024-01-01T12:03:00.000Z'', ''2024-01-01T12:04:00.000Z'']"
    "out_labels (solarwindOut exampleEnv [] feedA feedB) = [''14:01'', ''14:02'', ''14:03'', ''14:04'']"
    "out_speed (solarwindOut exampleEnv [] feedA feedB) = [Some 400, Some 410, Some 420, None]"
    "out_bz (solarwindOut exampleEnv [] feedA feedB) = [None, Some (- 1), Some (- 23 / 10), Some (- 3)]"
    by code_simp+
  have card4: "card (tags feedA feedB) = 4"
    by (simp add: tg)
  from chart_series_window[OF valid, of "[]"] mono
  have "length (out_times (solarwindOut exampleEnv [] feedA feedB)) = min 60 (card (tags feedA feedB))
      \<and> sorted (map (dateKey exampleEnv) (out_times (solarwindOut exampleEnv [] feedA feedB)))"
    by blast
  with tg dates vals card4 show ?thesis by simp
qed


lemma chart_series_contents:
  "out_labels (solarwindOut env clock plasma mag) =
     map (fmtHM env) (out_times (solarwindOut env clock plasma mag))
   \<and> out_speed (solarwindOut env clock plasma mag) =
       map (\<lambda>t. round1 (pick env (mapGet plasma t) speedKeys)) (tail60 (sortedTimes env plasma mag))
   \<and> out_density (solarwindOut env clock plasma mag) =
       map (\<lambda>t. round2 (pick env (mapGet plasma t) densityKeys)) (tail60 (sortedTimes env plasma mag))
   \<and> out_bz (solarwindOut env clock plasma mag) =
       map (\<lambda>t. round1 (pick env (mapGet mag t) bzKeys)) (tail60 (sortedTimes env plasma mag))
   \<and> out_bt (solarwindOut env clock plasma mag) =
       map (\<lambda>t. round1 (pick env (mapGet mag t) btKeys)) (tail60 (sortedTimes env plasma mag))"
  by (simp add: solarwindOut_def Let_def speedSeries_def densitySeries_def bzSeries_def btSeries_def)

text \<open>
  Claim C8. The claim holds of the union, the sort and the cut, and fails in its
  conclusion: the sort orders the raw tags by \<open>new Date(tag)\<close>, which reads a tag
  without a zone designator as local time, while the output times are printed from
  \<open>parseToUTC\<close>, which reads it as UTC. On a runtime two hours ahead of UTC, with a
  plasma tag \<open>2024-01-01 12:30:00\<close> and a magnetometer tag \<open>2024-01-01T11:00:00Z\<close>,
  both valid dates, the output times are 12:30Z followed by 11:00Z: they descend.
\<close>

theorem chart_times_descend_on_mixed_tags:
  "newDate exampleEnv ''2024-01-01 12:30:00'' = Some 1704105000000
   \<and> newDate exampleEnv ''2024-01-01T11:00:00Z'' = Some 1704106800000
   \<and> sortedTimes exampleEnv feedLocal feedZulu = [''2024-01-01 12:30:00'', ''2024-01-01T11:00:00Z'']
   \<and> out_times (solarwindOut exampleEnv [] feedLocal feedZulu) =
       [''2024-01-01T12:30:00.000Z'', ''2024-01-01T11:00:00.000Z'']
   \<and> newDate exampleEnv ''2024-01-01T12:30:00.000Z'' = Some 1704112200000
   \<and> newDate exampleEnv ''2024-01-01T11:00:00.000Z'' = Some 1704106800000
   \<and> \<not> sorted (map (dateKey exampleEnv) (out_times (solarwindOut exampleEnv [] feedLocal feedZulu)))"
  by code_simp

section \<open>Properties of the timestamp normalisation\<close>

lemma parseToUTC_markerless:
  "\<not> tzMarker s \<Longrightarrow> parseToUTC env s = newDate env (replaceSpace s @ ''Z'')"
  by (simp add: parseToUTC_def)

text \<open>
  Claim C3. A timestamp string in which the server's test finds no zone marker is handed
  to the date parser with its first space replaced by \<open>T\<close> and the UTC designator \<open>Z\<close>
  appended, so it is read as UTC and never as local time: two runtimes that differ in
  their local zone only (they agree on the string that carries the designator, and print
  time values alike) normalise it to the same result.
\<close>

theorem markerless_timestamp_read_as_utc:
  assumes nomark: "\<not> tzMarker s"
    and agree: "newDate env' (replaceSpace s @ ''Z'') = newDate env (replaceSpace s @ ''Z'')"
    and print: "toISOString env' = toISOString env"
  shows "parseToUTC env s = newDate env (replaceSpace s @ ''Z'')
       \<and> last (replaceSpace s @ ''Z'') = CHR ''Z''
       \<and> parseToUTC env' s = parseToUTC env s
       \<and> normalizeUtcIso env' s = normalizeUtcIso env s"
  using assms by (simp add: parseToUTC_markerless normalizeUtcIso_def split: option.splits)

theorem markerless_timestamp_read_as_utc_witness:
  "\<not> tzMarker ''2024-01-01 12:00:00''
   \<and> newDate utcEnv ''2024-01-01T12:00:00Z'' = Some 1704110400000
   \<and> newDate exampleEnv ''2024-01-01T12:00:00Z'' = Some 1704110400000
   \<and> newDate utcEnv ''2024-01-01 12:00:00'' = Some 1704110400000
   \<and> newDate exampleEnv ''2024-01-01 12:00:00'' = Some 1704103200000
   \<and> toISOString exampleEnv 1704103200000 = ''2024-01-01T10:00:00.000Z''
   \<and> normalizeUtcIso utcEnv ''2024-01-01 12:00:00'' = ''2024-01-01T12:00:00.000Z''
   \<and> normalizeUtcIso exampleEnv ''2024-01-01 12:00:00'' = ''2024-01-01T12:00:00.000Z''"
proof -
  have nomark: "\<not> tzMarker ''2024-01-01 12:00:00''"
    by code_simp
  have rs: "replaceSpace ''2024-01-01 12:00:00'' @ ''Z'' = ''2024-01-01T12:00:00Z''"
    by simp
  have dates: "newDate utcEnv ''2024-01-01T12:00:00Z'' = Some 1704110400000"
    "newDate exampleEnv ''2024-01-01T12:00:00Z'' = Some 1704110400000"
    "newDate utcEnv ''2024-01-01 12:00:00'' = Some 1704110400000"
    "newDate exampleEnv ''2024-01-01 12:00:00'' = Some 1704103200000"
    "toISOString exampleEnv 1704103200000 = ''2024-01-01T10:00:00.000Z''"
    by code_simp+
  have print: "toISOString exampleEnv = toISOString utcEnv"
    by (simp add: utcEnv_def)
  have utc: "normalizeUtcIso utcEnv ''2024-01-01 12:00:00'' = ''2024-01-01T12:00:00.000Z''"
    by code_simp
  from markerless_timestamp_read_as_utc[of "''2024-01-01 12:00:00''" exampleEnv utcEnv, OF nomark _ print]
  have "normalizeUtcIso exampleEnv ''2024-01-01 12:00:00'' = normalizeUtcIso utcEnv ''2024-01-01 12:00:00''"
    by (simp add: rs dates)
  with nomark dates utc show ?thesis by simp
qed


section \<open>Properties of the request handlers\<close>

subsection \<open>The layers of a radar tile\<close>

lemma radarLayers_subset: "set (radarLayers q) \<subseteq> set FMI_RADAR_LAYERS"
  by (auto simp: radarLayers_def)

lemma radarLayers_empty_iff:
  "radarLayers q = [] \<longleftrightarrow>
     (\<forall>l \<in> set (splitOn CHR '','' (orDefault q ''Radar:radar_ppi_fikau_dbzv'')).
        trim l \<notin> set FMI_RADAR_LAYERS)"
  by (auto simp: radarLayers_def filter_empty_conv FMI_RADAR_LAYERS_def)

lemma apiFmiRadar_rejects:
  "radarLayers (rq_layers q) = [] \<Longrightarrow>
     apiFmiRadar env now res q st = (Error 400 ''Invalid or missing layers'', st)"
  by (simp add: apiFmiRadar_def)

lemma apiFmiRadar_accepts:
  "radarLayers (rq_layers q) \<noteq> [] \<Longrightarrow>
     fst (apiFmiRadar env now res q st) \<noteq> Error 400 ''Invalid or missing layers''"
  by (auto simp: apiFmiRadar_def Let_def split: fetched.splits option.splits)

text \<open>
  Claim C6. The radar tile proxy splits the \<open>layers\<close> parameter at its commas, trims the
  items and keeps those of the allowlist of two layer identifiers. It rejects the request
  for its layers, with status 400 and before any upstream request, exactly when nothing
  remains, that is when no item is in the allowlist; a mix of valid and invalid items is
  therefore not rejected, and only layers of the allowlist go upstream.
\<close>

theorem radar_layers_allowlist:
  "(fst (apiFmiRadar env now res q st) = Error 400 ''Invalid or missing layers''
      \<longleftrightarrow> radarLayers (rq_layers q) = [])
   \<and> (radarLayers (rq_layers q) = [] \<longleftrightarrow>
        (\<forall>l \<in> set (splitOn CHR '','' (orDefault (rq_layers q) ''Radar:radar_ppi_fikau_dbzv'')).
           trim l \<notin> set FMI_RADAR_LAYERS))
   \<and> (radarLayers (rq_layers q) = [] \<longrightarrow>
        apiFmiRadar env now res q st = (Error 400 ''Invalid or missing layers'', st))
   \<and> set (radarLayers (rq_layers q)) \<subseteq> set FMI_RADAR_LAYERS
   \<and> length FMI_RADAR_LAYERS = 2"
  using apiFmiRadar_rejects[of q env now res st] apiFmiRadar_accepts[of q env now res st]
    radarLayers_empty_iff[of "rq_layers q"] radarLayers_subset[of "rq_layers q"]
  by (auto simp: FMI_RADAR_LAYERS_def)

theorem radar_layers_allowlist_witness:
  "radarLayers (Some ''evil,Radar:other'') = []
   \<and> apiFmiRadar exampleEnv 0 Failed
        \<lparr>rq_layers = Some ''evil,Radar:other'', rq_bbox = Some ''0,0,1,1'', rq_styles = None,
         rq_time = None, rq_tiled = None\<rparr> (initialServer :: unit server)
       = (Error 400 ''Invalid or missing layers'', initialServer)
   \<and> radarLayers (Some ''Radar:suomi_rr_eureffin, evil'') = [''Radar:suomi_rr_eureffin'']
   \<and> fst (apiFmiRadar exampleEnv 0 (Response True 200 (Some \<lparr>t_buf = ''png'', t_ct = ''image/png''\<rparr>))
        \<lparr>rq_layers = Some ''Radar:suomi_rr_eureffin, evil'', rq_bbox = Some ''0,0,1,1'',
         rq_styles = None, rq_time = None, rq_tiled = None\<rparr> (initialServer :: unit server))
       = Image ''image/png'' ''png''"
proof -
  have empty: "radarLayers (Some ''evil,Radar:other'') = []"
    by code_simp
  have mix: "radarLayers (Some ''Radar:suomi_rr_eureffin, evil'') = [''Radar:suomi_rr_eureffin'']"
    by code_simp
  have served: "fst (apiFmiRadar exampleEnv 0 (Response True 200 (Some \<lparr>t_buf = ''png'', t_ct = ''image/png''\<rparr>))
        \<lparr>rq_layers = Some ''Radar:suomi_rr_eureffin, evil'', rq_bbox = Some ''0,0,1,1'',
         rq_styles = None, rq_time = None, rq_tiled = None\<rparr> (initialServer :: unit server))
       = Image ''image/png'' ''png''"
    by code_simp
  from radar_layers_allowlist[of exampleEnv 0 Failed
      "\<lparr>rq_layers = Some ''evil,Radar:other'', rq_bbox = Some ''0,0,1,1'', rq_styles = None,
        rq_time = None, rq_tiled = None\<rparr>" "initialServer :: unit server"] empty
  have "apiFmiRadar exampleEnv 0 Failed
        \<lparr>rq_layers = Some ''evil,Radar:other'', rq_bbox = Some ''0,0,1,1'', rq_styles = None,
         rq_time = None, rq_tiled = None\<rparr> (initialServer :: unit server)
       = (Error 400 ''Invalid or missing layers'', initialServer)"
    by simp
  with empty mix served show ?thesis by simp
qed

subsection \<open>Station codes\<close>

lemma bxStation_valid: "bxStation q \<in> set FMI_STATIONS"
  by (simp add: bxStation_def Let_def FMI_STATIONS_def)

lemma bxStation_default:
  "toUpperCase (orDefault q ''KEV'') \<notin> set FMI_STATIONS \<Longrightarrow> bxStation q = ''KEV''"
  by (simp add: bxStation_def Let_def)

lemma bxStation_keeps:
  "toUpperCase (orDefault q ''KEV'') \<in> set FMI_STATIONS \<Longrightarrow>
     bxStation q = toUpperCase (orDefault q ''KEV'')"
  by (simp add: bxStation_def Let_def)

lemma validStations_set: "set validStations = set FMI_STATIONS \<union> {''SOD''}"
  by (auto simp: validStations_def FMI_STATIONS_def)

lemma apiFmiBx_status: "status (fst (apiFmiBx env now clock endTime res mock qs qm st)) = 200"
  by (simp add: apiFmiBx_def split: prod.splits)

lemma textdata_400_iff:
  "status (fst (apiFmiTextdata res q st)) = 400 \<longleftrightarrow> toUpperCase (orDefault q []) \<notin> set validStations"
  by (auto simp: apiFmiTextdata_def Let_def split: fetched.splits option.splits)

text \<open>
  Claim C7, as the specification states it, fails: the full-day text endpoint accepts the
  station code SOD, which is not one of the twelve codes of the minute-window endpoint.
\<close>

theorem textdata_accepts_thirteenth_station:
  "''SOD'' \<notin> set FMI_STATIONS
   \<and> status (fst (apiFmiTextdata (Response True 200 (Some [])) (Some ''SOD'')
        (initialServer :: unit server))) = 200"
  by code_simp

text \<open>
  Claim C7, amended. The minute-window endpoint knows twelve three-letter station codes;
  it puts the parameter in upper case, keeps it when it is one of the twelve, takes the
  default station KEV for every other value, and never rejects the request. The full-day
  text endpoint accepts those twelve codes and SOD, and answers every other value with
  status 400.
\<close>

theorem station_codes_by_endpoint:
  "length FMI_STATIONS = 12 \<and> distinct FMI_STATIONS \<and> list_all (\<lambda>c. length c = 3) FMI_STATIONS
   \<and> bxStation q \<in> set FMI_STATIONS
   \<and> (toUpperCase (orDefault q ''KEV'') \<in> set FMI_STATIONS \<longrightarrow>
        bxStation q = toUpperCase (orDefault q ''KEV''))
   \<and> (toUpperCase (orDefault q ''KEV'') \<notin> set FMI_STATIONS \<longrightarrow> bxStation q = ''KEV'')
   \<and> status (fst (apiFmiBx env now clock endTime res mock q qm st)) = 200
   \<and> set validStations = set FMI_STATIONS \<union> {''SOD''}
   \<and> (status (fst (apiFmiTextdata res' q st)) = 400
        \<longleftrightarrow> toUpperCase (orDefault q []) \<notin> set FMI_STATIONS \<union> {''SOD''})"
proof -
  have "length FMI_STATIONS = 12" "distinct FMI_STATIONS" "list_all (\<lambda>c. length c = 3) FMI_STATIONS"
    by (simp_all add: FMI_STATIONS_def)
  then show ?thesis
    using bxStation_valid[of q] bxStation_default[of q] bxStation_keeps[of q]
      apiFmiBx_status[of env now clock endTime res mock q qm st]
      textdata_400_iff[of res' q st] validStations_set
    by simp
qed

theorem station_codes_by_endpoint_witness:
  "toUpperCase (orDefault (Some ''zzz'') ''KEV'') = ''ZZZ''
   \<and> ''ZZZ'' \<notin> set FMI_STATIONS
   \<and> bxStation (Some ''zzz'') = ''KEV''
   \<and> bxStation (Some ''muo'') = ''MUO''
   \<and> status (fst (apiFmiTextdata (Response True 200 (Some [])) (Some ''zzz'')
        (initialServer :: unit server))) = 400
   \<and> status (fst (apiFmiTextdata (Response True 200 (Some [])) (Some ''muo'')
        (initialServer :: unit server))) = 200"
proof -
  have up: "toUpperCase (orDefault (Some ''zzz'') ''KEV'') = ''ZZZ''"
    "toUpperCase (orDefault (Some ''zzz'') []) = ''ZZZ''"
    by code_simp+
  have out: "''ZZZ'' \<notin> set FMI_STATIONS" "''ZZZ'' \<notin> set FMI_STATIONS \<union> {''SOD''}"
    by (simp_all add: FMI_STATIONS_def)
  have others: "bxStation (Some ''muo'') = ''MUO''"
    "status (fst (apiFmiTextdata (Response True 200 (Some [])) (Some ''muo'')
        (initialServer :: unit server))) = 200"
    by code_simp+
  from station_codes_by_endpoint[of "Some ''zzz''" exampleEnv 0 "[]" 0 Failed "[]" None
      "initialServer :: unit server" "Response True 200 (Some [])"] up out
  have "bxStation (Some ''zzz'') = ''KEV''
      \<and> status (fst (apiFmiTextdata (Response True 200 (Some [])) (Some ''zzz'')
          (initialServer :: unit server))) = 400"
    by simp
  with up out others show ?thesis by simp
qed


section \<open>Properties of the cache and of the fetchers\<close>

lemma getSolarwind_hit:
  "e_data (c_solarwind st) = Some d \<Longrightarrow> now - e_ts (c_solarwind st) < TTL_MS \<Longrightarrow>
     getSolarwind env now clock pr mr mock st = (d, st)"
  by (simp add: getSolarwind_def)

lemma getSolarwind_miss:
  "e_data (c_solarwind st) = None \<or> TTL_MS \<le> now - e_ts (c_solarwind st) \<Longrightarrow>
     getSolarwind env now clock pr mr mock st =
       (fetchSolarwind env clock pr mr mock,
        st\<lparr>c_solarwind := \<lparr>e_data = Some (fetchSolarwind env clock pr mr mock), e_ts = now\<rparr>,
           requests := requests st @ [SWPC_PLASMA, SWPC_MAG]\<rparr>)"
  by (auto simp: getSolarwind_def Let_def split: option.splits)

lemma getSolarwind_again:
  assumes miss: "e_data (c_solarwind st) = None \<or> TTL_MS \<le> now - e_ts (c_solarwind st)"
    and fresh: "now2 - now < TTL_MS"
  shows "getSolarwind env now2 clock2 pr2 mr2 mock2 (snd (getSolarwind env now clock pr mr mock st)) =
           getSolarwind env now clock pr mr mock st"
  using fresh by (simp add: getSolarwind_miss[OF miss] getSolarwind_hit)

lemma fetchSolarwind_failed:
  "upstreamFailed pr \<or> upstreamFailed mr \<Longrightarrow> fetchSolarwind env clock pr mr mock = mock"
  by (auto simp: fetchSolarwind_def upstreamFailed_def split: fetched.splits option.splits)

lemma getKp_hit:
  "e_data (c_kp st) = Some d \<Longrightarrow> now - e_ts (c_kp st) < TTL_MS \<Longrightarrow>
     getKp env now clock res mock st = (d, st)"
  by (simp add: getKp_def)

lemma getKp_miss:
  "e_data (c_kp st) = None \<or> TTL_MS \<le> now - e_ts (c_kp st) \<Longrightarrow>
     getKp env now clock res mock st =
       (fetchKp env clock res mock,
        st\<lparr>c_kp := \<lparr>e_data = Some (fetchKp env clock res mock), e_ts = now\<rparr>,
           requests := requests st @ [SWPC_KP]\<rparr>)"
  by (auto simp: getKp_def Let_def split: option.splits)

lemma getKp_again:
  assumes miss: "e_data (c_kp st) = None \<or> TTL_MS \<le> now - e_ts (c_kp st)"
    and fresh: "now2 - now < TTL_MS"
  shows "getKp env now2 clock2 res2 mock2 (snd (getKp env now clock res mock st)) =
           getKp env now clock res mock st"
  using fresh by (simp add: getKp_miss[OF miss] getKp_hit)

lemma fetchKp_failed: "upstreamFailed res \<Longrightarrow> fetchKp env clock res mock = mock"
  by (auto simp: fetchKp_def upstreamFailed_def split: fetched.splits option.splits)

lemma fetchWeather_failed:
  "upstreamFailed res \<Longrightarrow> fetchWeather env clock lat lon res = weatherFallback clock lat lon"
  by (auto simp: fetchWeather_def upstreamFailed_def split: fetched.splits option.splits)

lemma fetchFmi_failed:
  "upstreamFailed res \<Longrightarrow> fetchFmiMagnetometerData env endTime minutes res mock = mock"
  by (auto simp: fetchFmiMagnetometerData_def upstreamFailed_def split: fetched.splits option.splits)




lemma apiWeather_status: "status (fst (apiWeather env now clock res qlat qlon st)) = 200"
  by (simp add: apiWeather_def split: prod.splits)


lemma textdata_statuses: "status (fst (apiFmiTextdata res q st)) \<in> {200, 400, 500}"
  by (auto simp: apiFmiTextdata_def Let_def split: fetched.splits option.splits)

lemma radar_statuses: "status (fst (apiFmiRadar env now res q st)) \<in> {200, 400, 502}"
  by (auto simp: apiFmiRadar_def Let_def split: fetched.splits option.splits)

lemma solarimage_statuses: "status (fst (apiSolarimage res q st)) \<in> {200, 400, 502}"
  by (auto simp: apiSolarimage_def Let_def split: fetched.splits option.splits lookup.splits)

lemma solarimage_failed:
  "upstreamFailed res \<Longrightarrow> status (fst (apiSolarimage res q st)) \<in> {400, 502}"
  by (auto simp: apiSolarimage_def Let_def upstreamFailed_def split: fetched.splits option.splits lookup.splits)

lemma weatherLat_cases:
  "(q = None \<longrightarrow> parseFloat env ''60.4728'' = Some DEFAULT_LAT \<longrightarrow> weatherLat env q = DEFAULT_LAT)"
  "q = Some v \<Longrightarrow> parseFloat env v = None \<Longrightarrow> weatherLat env q = DEFAULT_LAT"
  "q = Some v \<Longrightarrow> parseFloat env v = Some x \<Longrightarrow> x < - 90 \<or> 90 < x \<Longrightarrow> weatherLat env q = DEFAULT_LAT"
  "q = Some v \<Longrightarrow> parseFloat env v = Some x \<Longrightarrow> - 90 \<le> x \<Longrightarrow> x \<le> 90 \<Longrightarrow> weatherLat env q = x"
  by (auto simp: weatherLat_def Let_def coordOk_def)

lemma weatherLon_cases:
  "(q = None \<longrightarrow> parseFloat env ''26.3042'' = Some DEFAULT_LON \<longrightarrow> weatherLon env q = DEFAULT_LON)"
  "q = Some v \<Longrightarrow> parseFloat env v = None \<Longrightarrow> weatherLon env q = DEFAULT_LON"
  "q = Some v \<Longrightarrow> parseFloat env v = Some x \<Longrightarrow> x < - 180 \<or> 180 < x \<Longrightarrow> weatherLon env q = DEFAULT_LON"
  "q = Some v \<Longrightarrow> parseFloat env v = Some x \<Longrightarrow> - 180 \<le> x \<Longrightarrow> x \<le> 180 \<Longrightarrow> weatherLon env q = x"
  by (auto simp: weatherLon_def Let_def coordOk_def)

lemma weatherLat_range: "- 90 \<le> weatherLat env q \<and> weatherLat env q \<le> 90"
  by (auto simp: weatherLat_def Let_def coordOk_def DEFAULT_LAT_def split: option.splits)

lemma weatherLon_range: "- 180 \<le> weatherLon env q \<and> weatherLon env q \<le> 180"
  by (auto simp: weatherLon_def Let_def coordOk_def DEFAULT_LON_def split: option.splits)

lemma getWeather_requests:
  "requests (snd (getWeatherTemperature env now clock res lat lon st)) = requests st
   \<or> (requests (snd (getWeatherTemperature env now clock res lat lon st)) = requests st @ [OPEN_METEO lat lon]
      \<and> w_latitude (fst (getWeatherTemperature env now clock res lat lon st)) = lat
      \<and> w_longitude (fst (getWeatherTemperature env now clock res lat lon st)) = lon)"
  by (auto simp: getWeatherTemperature_def Let_def fetchWeather_def weatherFallback_def
      split: option.splits fetched.splits)

lemma getWeather_miss:
  "c_weatherTemp st (weatherKey env lat lon) = None \<Longrightarrow>
     requests (snd (getWeatherTemperature env now clock res lat lon st)) = requests st @ [OPEN_METEO lat lon]
      \<and> w_latitude (fst (getWeatherTemperature env now clock res lat lon st)) = lat
      \<and> w_longitude (fst (getWeatherTemperature env now clock res lat lon st)) = lon"
  by (auto simp: getWeatherTemperature_def Let_def fetchWeather_def weatherFallback_def
      split: option.splits fetched.splits)

lemma getRx_hit:
  "e_data (c_rx st) = Some d \<Longrightarrow> now - e_ts (c_rx st) < TTL_MS \<Longrightarrow> getRx now mock st = (d, st)"
  by (simp add: getRx_def)

lemma getRx_miss:
  "e_data (c_rx st) = None \<or> TTL_MS \<le> now - e_ts (c_rx st) \<Longrightarrow>
     getRx now mock st = (mock, st\<lparr>c_rx := \<lparr>e_data = Some mock, e_ts = now\<rparr>\<rparr>)"
  by (auto simp: getRx_def split: option.splits)

lemma getWeather_hit:
  "c_weatherTemp st (weatherKey env lat lon) = Some ent \<Longrightarrow> now - e_ts ent < WEATHER_TTL_MS \<Longrightarrow>
     getWeatherTemperature env now clock res lat lon st = (e_data ent, st)"
  by (simp add: getWeatherTemperature_def Let_def)

lemma getWeather_stale:
  "weatherStale env now lat lon st \<Longrightarrow>
     getWeatherTemperature env now clock res lat lon st =
       (fetchWeather env clock lat lon res,
        st\<lparr>c_weatherTemp := (c_weatherTemp st)
              (weatherKey env lat lon \<mapsto> \<lparr>e_data = fetchWeather env clock lat lon res, e_ts = now\<rparr>),
           requests := requests st @ [OPEN_METEO lat lon]\<rparr>)"
  by (auto simp: getWeatherTemperature_def weatherStale_def Let_def split: option.splits)

lemma getFmiBx_hit:
  "c_fmiBx st (bxKey station minutes) = Some ent \<Longrightarrow> now - e_ts ent < TTL_MS \<Longrightarrow>
     getFmiBx env now clock endTime res mock station minutes st = (e_data ent, st)"
  by (simp add: getFmiBx_def Let_def)

lemma getFmiBx_stale:
  "bxStale now station minutes st \<Longrightarrow>
     getFmiBx env now clock endTime res mock station minutes st =
       (bxData clock station minutes (fetchFmiMagnetometerData env endTime minutes res mock),
        st\<lparr>c_fmiBx := (c_fmiBx st)
              (bxKey station minutes \<mapsto>
                 \<lparr>e_data = bxData clock station minutes
                             (fetchFmiMagnetometerData env endTime minutes res mock),
                  e_ts = now\<rparr>),
           requests := requests st @ [FMI_OPEN_DATA (fmisid station) minutes]\<rparr>)"
  by (auto simp: getFmiBx_def bxStale_def Let_def split: option.splits)

lemma radarValid_unfold:
  "radarValid env q \<Longrightarrow>
     radarLayers (rq_layers q) \<noteq> []
     \<and> \<not> (length (radarParts env q) \<noteq> 4 \<or> (\<exists>n \<in> set (radarParts env q). n = None))"
  by (auto simp: radarValid_def list_all_iff)

lemma radar_hit:
  "radarValid env q \<Longrightarrow> c_fmiRadar st (radarKeyOf env q) = Some ent \<Longrightarrow> now - e_ts ent < TTL_MS \<Longrightarrow>
     apiFmiRadar env now res q st = (Image (t_ct (e_data ent)) (t_buf (e_data ent)), st)"
  using radarValid_unfold[of env q] by (simp add: apiFmiRadar_def Let_def)

lemma radar_stale_success:
  "radarValid env q \<Longrightarrow> radarStale env now q st \<Longrightarrow>
     apiFmiRadar env now (Response True code (Some t)) q st =
       (Image (imageType (t_ct t) ''image/png'') (t_buf t),
        st\<lparr>requests := requests st @ [radarRequest (radarKeyOf env q)],
           c_fmiRadar := (c_fmiRadar st)
              (radarKeyOf env q \<mapsto>
                 \<lparr>e_data = \<lparr>t_buf = t_buf t, t_ct = imageType (t_ct t) ''image/png''\<rparr>, e_ts = now\<rparr>)\<rparr>)"
  using radarValid_unfold[of env q]
  by (auto simp: apiFmiRadar_def radarStale_def Let_def split: option.splits)

lemma radar_stale_failure:
  "radarValid env q \<Longrightarrow> radarStale env now q st \<Longrightarrow> upstreamFailed res \<Longrightarrow>
     status (fst (apiFmiRadar env now res q st)) = 502
     \<and> c_fmiRadar (snd (apiFmiRadar env now res q st)) = c_fmiRadar st
     \<and> requests (snd (apiFmiRadar env now res q st)) = requests st @ [radarRequest (radarKeyOf env q)]"
  using radarValid_unfold[of env q]
  by (auto simp: apiFmiRadar_def radarStale_def upstreamFailed_def Let_def
      split: option.splits fetched.splits)

lemma getRx_again:
  assumes miss: "e_data (c_rx st) = None \<or> TTL_MS \<le> now - e_ts (c_rx st)"
    and fresh: "now2 - now < TTL_MS"
  shows "getRx now2 mock2 (snd (getRx now mock st)) = getRx now mock st"
  using fresh by (simp add: getRx_miss[OF miss] getRx_hit)

lemma getWeather_again:
  assumes stale: "weatherStale env now lat lon st"
    and fresh: "now2 - now < WEATHER_TTL_MS"
  shows "getWeatherTemperature env now2 clock2 res2 lat lon
           (snd (getWeatherTemperature env now clock res lat lon st)) =
         getWeatherTemperature env now clock res lat lon st"
  using fresh by (simp add: getWeather_stale[OF stale] getWeather_hit)

lemma getFmiBx_again:
  assumes stale: "bxStale now station minutes st"
    and fresh: "now2 - now < TTL_MS"
  shows "getFmiBx env now2 clock2 endTime2 res2 mock2 station minutes
           (snd (getFmiBx env now clock endTime res mock station minutes st)) =
         getFmiBx env now clock endTime res mock station minutes st"
  using fresh by (simp add: getFmiBx_stale[OF stale] getFmiBx_hit)

lemma bxData_wf: "bxWellFormed (bxData clock station minutes rows)"
  by (simp add: bxWellFormed_def bxData_def)

lemma getFmiBx_wf:
  "bxCacheOk st \<Longrightarrow> bxWellFormed (fst (getFmiBx env now clock endTime res mock station minutes st))"
  by (auto simp: getFmiBx_def Let_def bxCacheOk_def bxData_wf split: option.splits)

lemma getFmiBx_keeps:
  "bxCacheOk st \<Longrightarrow> bxCacheOk (snd (getFmiBx env now clock endTime res mock station minutes st))"
  by (auto simp: getFmiBx_def Let_def bxCacheOk_def bxData_wf split: option.splits if_splits)

lemma c_fmiBx_getSolarwind: "c_fmiBx (snd (getSolarwind env now clock pr mr mock st)) = c_fmiBx st"
  by (simp add: getSolarwind_def Let_def split: option.splits)

lemma c_fmiBx_getKp: "c_fmiBx (snd (getKp env now clock res mock st)) = c_fmiBx st"
  by (simp add: getKp_def Let_def split: option.splits)

lemma c_fmiBx_getRx: "c_fmiBx (snd (getRx now mock st)) = c_fmiBx st"
  by (simp add: getRx_def split: option.splits)

lemma c_fmiBx_getWeather:
  "c_fmiBx (snd (getWeatherTemperature env now clock res lat lon st)) = c_fmiBx st"
  by (simp add: getWeatherTemperature_def Let_def split: option.splits)

lemma c_fmiBx_textdata: "c_fmiBx (snd (apiFmiTextdata res q st)) = c_fmiBx st"
  by (simp add: apiFmiTextdata_def Let_def split: fetched.splits option.splits)

lemma c_fmiBx_radar: "c_fmiBx (snd (apiFmiRadar env now res q st)) = c_fmiBx st"
  by (simp add: apiFmiRadar_def Let_def split: fetched.splits option.splits)

lemma c_fmiBx_solarimage: "c_fmiBx (snd (apiSolarimage res q st)) = c_fmiBx st"
  by (simp add: apiSolarimage_def Let_def split: fetched.splits option.splits lookup.splits)

lemma snd_case_prod: "snd (case p of (d, s) \<Rightarrow> (f d, s)) = snd p"
  by (cases p) simp

lemma fst_case_prod: "fst (case p of (d, s) \<Rightarrow> (f d, s)) = f (fst p)"
  by (cases p) simp

lemma reachable_bxCacheOk: "reachable env st \<Longrightarrow> bxCacheOk st"
proof (induction rule: reachable.induct)
  case start
  show ?case by (simp add: bxCacheOk_def initialServer_def)
next
  case (solarwind st now clock plasmaRes magRes mock)
  then show ?case by (simp add: bxCacheOk_def apiSolarwind_def snd_case_prod c_fmiBx_getSolarwind)
next
  case (kp st now clock kres kmock)
  then show ?case by (simp add: bxCacheOk_def apiKp_def snd_case_prod c_fmiBx_getKp)
next
  case (rx st now rmock)
  then show ?case by (simp add: bxCacheOk_def apiRx_def snd_case_prod c_fmiBx_getRx)
next
  case (weather st now clock wres qlat qlon)
  then show ?case by (simp add: bxCacheOk_def apiWeather_def snd_case_prod c_fmiBx_getWeather)
next
  case (fmiBx st now clock endTime bres bmock qstation qminutes)
  then show ?case by (simp add: apiFmiBx_def snd_case_prod getFmiBx_keeps)
next
  case (warm st now clock endTime bres bmock station minutes)
  then show ?case by (simp add: getFmiBx_keeps)
next
  case (textdata st tres qstation)
  then show ?case by (simp add: bxCacheOk_def c_fmiBx_textdata)
next
  case (radar st now rres q)
  then show ?case by (simp add: bxCacheOk_def c_fmiBx_radar)
next
  case (solarimage st ires qsrc)
  then show ?case by (simp add: bxCacheOk_def c_fmiBx_solarimage)
qed


text \<open>
  Claim C4, as the specification states it, fails of one cached resource: the radar tile
  proxy, on a request with no stored tile, asks the upstream once and, when the upstream
  answers with a failure, stores nothing and answers with status 502.
\<close>

theorem radar_failure_is_not_stored:
  "radarValid exampleEnv tileQuery
   \<and> c_fmiRadar (initialServer :: unit server) (radarKeyOf exampleEnv tileQuery) = None
   \<and> fst (apiFmiRadar exampleEnv 1000000 (Response False 503 None) tileQuery (initialServer :: unit server))
       = Error 502 ''Upstream 503''
   \<and> requests (snd (apiFmiRadar exampleEnv 1000000 (Response False 503 None) tileQuery
        (initialServer :: unit server)))
       = [FMI_WMS [''Radar:radar_ppi_fikau_dbzv''] [0, 0, 1, 1] [] None False]
   \<and> c_fmiRadar (snd (apiFmiRadar exampleEnv 1000000 (Response False 503 None) tileQuery
        (initialServer :: unit server))) (radarKeyOf exampleEnv tileQuery) = None"
  by code_simp

text \<open>
  Claim C4, amended. For the solar-wind, Kp, radio-blackout, weather and per-station
  magnetometer resources: a call that finds a stored payload younger than the TTL of the
  resource (\<open>WEATHER_TTL_MS\<close> for the weather, \<open>TTL_MS\<close> for the others) returns that
  payload and changes nothing, so it makes no upstream request. Any other call makes the
  upstream requests of the resource exactly once (one to each feed; the radio-blackout
  resource has none), stores the result under the key of the call with the current time
  and returns it, also when the result is the mock or fallback payload of an upstream
  failure; a later call for the same key within the TTL of that time returns the same
  payload and the same state. The radar tile proxy, on a request that passes its parameter
  checks, serves a stored tile younger than \<open>TTL_MS\<close> without an upstream request, and
  otherwise asks the upstream once and stores the tile only when the answer is a success:
  an upstream failure is answered with status 502 and nothing is stored.
\<close>

theorem cache_read_through_by_resource:
  "(\<forall>d. e_data (c_solarwind st) = Some d \<and> now - e_ts (c_solarwind st) < TTL_MS \<longrightarrow>
        getSolarwind env now clock pr mr mock st = (d, st))
   \<and> (e_data (c_solarwind st) = None \<or> TTL_MS \<le> now - e_ts (c_solarwind st) \<longrightarrow>
        getSolarwind env now clock pr mr mock st =
          (fetchSolarwind env clock pr mr mock,
           st\<lparr>c_solarwind := \<lparr>e_data = Some (fetchSolarwind env clock pr mr mock), e_ts = now\<rparr>,
              requests := requests st @ [SWPC_PLASMA, SWPC_MAG]\<rparr>)
        \<and> (\<forall>now2 clock2 pr2 mr2 mock2. now2 - now < TTL_MS \<longrightarrow>
              getSolarwind env now2 clock2 pr2 mr2 mock2 (snd (getSolarwind env now clock pr mr mock st)) =
              getSolarwind env now clock pr mr mock st))
   \<and> (upstreamFailed pr \<or> upstreamFailed mr \<longrightarrow> fetchSolarwind env clock pr mr mock = mock)
   \<and> (\<forall>d. e_data (c_kp st) = Some d \<and> now - e_ts (c_kp st) < TTL_MS \<longrightarrow>
        getKp env now clock kres kmock st = (d, st))
   \<and> (e_data (c_kp st) = None \<or> TTL_MS \<le> now - e_ts (c_kp st) \<longrightarrow>
        getKp env now clock kres kmock st =
          (fetchKp env clock kres kmock,
           st\<lparr>c_kp := \<lparr>e_data = Some (fetchKp env clock kres kmock), e_ts = now\<rparr>,
              requests := requests st @ [SWPC_KP]\<rparr>)
        \<and> (\<forall>now2 clock2 kres2 kmock2. now2 - now < TTL_MS \<longrightarrow>
              getKp env now2 clock2 kres2 kmock2 (snd (getKp env now clock kres kmock st)) =
              getKp env now clock kres kmock st))
   \<and> (upstreamFailed kres \<longrightarrow> fetchKp env clock kres kmock = kmock)
   \<and> (\<forall>d. e_data (c_rx st) = Some d \<and> now - e_ts (c_rx st) < TTL_MS \<longrightarrow>
        getRx now rmock st = (d, st))
   \<and> (e_data (c_rx st) = None \<or> TTL_MS \<le> now - e_ts (c_rx st) \<longrightarrow>
        getRx now rmock st = (rmock, st\<lparr>c_rx := \<lparr>e_data = Some rmock, e_ts = now\<rparr>\<rparr>)
        \<and> (\<forall>now2 rmock2. now2 - now < TTL_MS \<longrightarrow>
              getRx now2 rmock2 (snd (getRx now rmock st)) = getRx now rmock st))
   \<and> (\<forall>ent. c_weatherTemp st (weatherKey env lat lon) = Some ent
           \<and> now - e_ts ent < WEATHER_TTL_MS \<longrightarrow>
        getWeatherTemperature env now clock wres lat lon st = (e_data ent, st))
   \<and> (weatherStale env now lat lon st \<longrightarrow>
        getWeatherTemperature env now clock wres lat lon st =
          (fetchWeather env clock lat lon wres,
           st\<lparr>c_weatherTemp := (c_weatherTemp st)
                 (weatherKey env lat lon \<mapsto>
                    \<lparr>e_data = fetchWeather env clock lat lon wres, e_ts = now\<rparr>),
              requests := requests st @ [OPEN_METEO lat lon]\<rparr>)
        \<and> (\<forall>now2 clock2 wres2. now2 - now < WEATHER_TTL_MS \<longrightarrow>
              getWeatherTemperature env now2 clock2 wres2 lat lon
                (snd (getWeatherTemperature env now clock wres lat lon st)) =
              getWeatherTemperature env now clock wres lat lon st))
   \<and> (upstreamFailed wres \<longrightarrow>
        fetchWeather env clock lat lon wres = weatherFallback clock lat lon)
   \<and> (\<forall>ent. c_fmiBx st (bxKey station minutes) = Some ent \<and> now - e_ts ent < TTL_MS \<longrightarrow>
        getFmiBx env now clock endTime bres bmock station minutes st = (e_data ent, st))
   \<and> (bxStale now station minutes st \<longrightarrow>
        getFmiBx env now clock endTime bres bmock station minutes st =
          (bxData clock station minutes (fetchFmiMagnetometerData env endTime minutes bres bmock),
           st\<lparr>c_fmiBx := (c_fmiBx st)
                 (bxKey station minutes \<mapsto>
                    \<lparr>e_data = bxData clock station minutes
                                (fetchFmiMagnetometerData env endTime minutes bres bmock),
                     e_ts = now\<rparr>),
              requests := requests st @ [FMI_OPEN_DATA (fmisid station) minutes]\<rparr>)
        \<and> (\<forall>now2 clock2 endTime2 bres2 bmock2. now2 - now < TTL_MS \<longrightarrow>
              getFmiBx env now2 clock2 endTime2 bres2 bmock2 station minutes
                (snd (getFmiBx env now clock endTime bres bmock station minutes st)) =
              getFmiBx env now clock endTime bres bmock station minutes st))
   \<and> (upstreamFailed bres \<longrightarrow>
        fetchFmiMagnetometerData env endTime minutes bres bmock = bmock)
   \<and> (\<forall>ent. radarValid env q \<and> c_fmiRadar st (radarKeyOf env q) = Some ent
           \<and> now - e_ts ent < TTL_MS \<longrightarrow>
        apiFmiRadar env now rres q st = (Image (t_ct (e_data ent)) (t_buf (e_data ent)), st))
   \<and> (\<forall>code t. radarValid env q \<and> radarStale env now q st \<longrightarrow>
        apiFmiRadar env now (Response True code (Some t)) q st =
          (Image (imageType (t_ct t) ''image/png'') (t_buf t),
           st\<lparr>requests := requests st @ [radarRequest (radarKeyOf env q)],
              c_fmiRadar := (c_fmiRadar st)
                 (radarKeyOf env q \<mapsto>
                    \<lparr>e_data = \<lparr>t_buf = t_buf t, t_ct = imageType (t_ct t) ''image/png''\<rparr>,
                     e_ts = now\<rparr>)\<rparr>))
   \<and> (radarValid env q \<and> radarStale env now q st \<and> upstreamFailed rres \<longrightarrow>
        status (fst (apiFmiRadar env now rres q st)) = 502
        \<and> c_fmiRadar (snd (apiFmiRadar env now rres q st)) = c_fmiRadar st
        \<and> requests (snd (apiFmiRadar env now rres q st)) =
            requests st @ [radarRequest (radarKeyOf env q)])"
proof -
  have s1: "(\<forall>d. e_data (c_solarwind st) = Some d \<and> now - e_ts (c_solarwind st) < TTL_MS \<longrightarrow>
      getSolarwind env now clock pr mr mock st = (d, st))"
    using getSolarwind_hit[where st=st] by blast
  have s2: "(e_data (c_solarwind st) = None \<or> TTL_MS \<le> now - e_ts (c_solarwind st) \<longrightarrow>
      getSolarwind env now clock pr mr mock st =
        (fetchSolarwind env clock pr mr mock,
         st\<lparr>c_solarwind := \<lparr>e_data = Some (fetchSolarwind env clock pr mr mock), e_ts = now\<rparr>,
            requests := requests st @ [SWPC_PLASMA, SWPC_MAG]\<rparr>)
      \<and> (\<forall>now2 clock2 pr2 mr2 mock2. now2 - now < TTL_MS \<longrightarrow>
            getSolarwind env now2 clock2 pr2 mr2 mock2 (snd (getSolarwind env now clock pr mr mock st)) =
            getSolarwind env now clock pr mr mock st))"
    using getSolarwind_miss[where st=st] getSolarwind_again[where st=st] by blast
  have s3: "(upstreamFailed pr \<or> upstreamFailed mr \<longrightarrow> fetchSolarwind env clock pr mr mock = mock)"
    using fetchSolarwind_failed by blast
  have k1: "(\<forall>d. e_data (c_kp st) = Some d \<and> now - e_ts (c_kp st) < TTL_MS \<longrightarrow>
      getKp env now clock kres kmock st = (d, st))"
    using getKp_hit[where st=st] by blast
  have k2: "(e_data (c_kp st) = None \<or> TTL_MS \<le> now - e_ts (c_kp st) \<longrightarrow>
      getKp env now clock kres kmock st =
        (fetchKp env clock kres kmock,
         st\<lparr>c_kp := \<lparr>e_data = Some (fetchKp env clock kres kmock), e_ts = now\<rparr>,
            requests := requests st @ [SWPC_KP]\<rparr>)
      \<and> (\<forall>now2 clock2 kres2 kmock2. now2 - now < TTL_MS \<longrightarrow>
            getKp env now2 clock2 kres2 kmock2 (snd (getKp env now clock kres kmock st)) =
            getKp env now clock kres kmock st))"
    using getKp_miss[where st=st] getKp_again[where st=st] by blast
  have k3: "(upstreamFailed kres \<longrightarrow> fetchKp env clock kres kmock = kmock)"
    using fetchKp_failed by blast
  have r1: "(\<forall>d. e_data (c_rx st) = Some d \<and> now - e_ts (c_rx st) < TTL_MS \<longrightarrow>
      getRx now rmock st = (d, st))"
    using getRx_hit[where st=st] by blast
  have r2: "(e_data (c_rx st) = None \<or> TTL_MS \<le> now - e_ts (c_rx st) \<longrightarrow>
      getRx now rmock st = (rmock, st\<lparr>c_rx := \<lparr>e_data = Some rmock, e_ts = now\<rparr>\<rparr>)
      \<and> (\<forall>now2 rmock2. now2 - now < TTL_MS \<longrightarrow>
            getRx now2 rmock2 (snd (getRx now rmock st)) = getRx now rmock st))"
    using getRx_miss[where st=st] getRx_again[where st=st] by blast
  have w1: "(\<forall>ent. c_weatherTemp st (weatherKey env lat lon) = Some ent
         \<and> now - e_ts ent < WEATHER_TTL_MS \<longrightarrow>
      getWeatherTemperature env now clock wres lat lon st = (e_data ent, st))"
    using getWeather_hit[where st=st] by blast
  have w2: "(weatherStale env now lat lon st \<longrightarrow>
      getWeatherTemperature env now clock wres lat lon st =
        (fetchWeather env clock lat lon wres,
         st\<lparr>c_weatherTemp := (c_weatherTemp st)
               (weatherKey env lat lon \<mapsto>
                  \<lparr>e_data = fetchWeather env clock lat lon wres, e_ts = now\<rparr>),
            requests := requests st @ [OPEN_METEO lat lon]\<rparr>)
      \<and> (\<forall>now2 clock2 wres2. now2 - now < WEATHER_TTL_MS \<longrightarrow>
            getWeatherTemperature env now2 clock2 wres2 lat lon
              (snd (getWeatherTemperature env now clock wres lat lon st)) =
            getWeatherTemperature env now clock wres lat lon st))"
    using getWeather_stale[where st=st] getWeather_again[where st=st] by blast
  have w3: "(upstreamFailed wres \<longrightarrow>
      fetchWeather env clock lat lon wres = weatherFallback clock lat lon)"
    using fetchWeather_failed by blast
  have b1: "(\<forall>ent. c_fmiBx st (bxKey station minutes) = Some ent \<and> now - e_ts ent < TTL_MS \<longrightarrow>
      getFmiBx env now clock endTime bres bmock station minutes st = (e_data ent, st))"
    using getFmiBx_hit[where st=st] by blast
  have b2: "(bxStale now station minutes st \<longrightarrow>
      getFmiBx env now clock endTime bres bmock station minutes st =
        (bxData clock station minutes (fetchFmiMagnetometerData env endTime minutes bres bmock),
         st\<lparr>c_fmiBx := (c_fmiBx st)
               (bxKey station minutes \<mapsto>
                  \<lparr>e_data = bxData clock station minutes
                              (fetchFmiMagnetometerData env endTime minutes bres bmock),
                   e_ts = now\<rparr>),
            requests := requests st @ [FMI_OPEN_DATA (fmisid station) minutes]\<rparr>)
      \<and> (\<forall>now2 clock2 endTime2 bres2 bmock2. now2 - now < TTL_MS \<longrightarrow>
            getFmiBx env now2 clock2 endTime2 bres2 bmock2 station minutes
              (snd (getFmiBx env now clock endTime bres bmock station minutes st)) =
            getFmiBx env now clock endTime bres bmock station minutes st))"
    proof (intro impI conjI allI)
    assume stale: "bxStale now station minutes st"
    show "getFmiBx env now clock endTime bres bmock station minutes st =
          (bxData clock station minutes (fetchFmiMagnetometerData env endTime minutes bres bmock),
           st\<lparr>c_fmiBx := (c_fmiBx st)
                 (bxKey station minutes \<mapsto>
                    \<lparr>e_data = bxData clock station minutes
                                (fetchFmiMagnetometerData env endTime minutes bres bmock),
                     e_ts = now\<rparr>),
              requests := requests st @ [FMI_OPEN_DATA (fmisid station) minutes]\<rparr>)"
      by (rule getFmiBx_stale[OF stale])
  next
    fix now2 :: int and clock2 endTime2 bres2 bmock2
    assume stale: "bxStale now station minutes st" and fresh: "now2 - now < TTL_MS"
    show "getFmiBx env now2 clock2 endTime2 bres2 bmock2 station minutes
                (snd (getFmiBx env now clock endTime bres bmock station minutes st)) =
              getFmiBx env now clock endTime bres bmock station minutes st"
      by (rule getFmiBx_again[OF stale fresh])
  qed
  have b3: "(upstreamFailed bres \<longrightarrow>
      fetchFmiMagnetometerData env endTime minutes bres bmock = bmock)"
    using fetchFmi_failed by blast
  have t1: "(\<forall>ent. radarValid env q \<and> c_fmiRadar st (radarKeyOf env q) = Some ent
         \<and> now - e_ts ent < TTL_MS \<longrightarrow>
      apiFmiRadar env now rres q st = (Image (t_ct (e_data ent)) (t_buf (e_data ent)), st))"
    using radar_hit[where st=st] by blast
  have t2: "(\<forall>code t. radarValid env q \<and> radarStale env now q st \<longrightarrow>
      apiFmiRadar env now (Response True code (Some t)) q st =
        (Image (imageType (t_ct t) ''image/png'') (t_buf t),
         st\<lparr>requests := requests st @ [radarRequest (radarKeyOf env q)],
            c_fmiRadar := (c_fmiRadar st)
               (radarKeyOf env q \<mapsto>
                  \<lparr>e_data = \<lparr>t_buf = t_buf t, t_ct = imageType (t_ct t) ''image/png''\<rparr>,
                   e_ts = now\<rparr>)\<rparr>))"
    using radar_stale_success[where st=st] by blast
  have t3: "(radarValid env q \<and> radarStale env now q st \<and> upstreamFailed rres \<longrightarrow>
      status (fst (apiFmiRadar env now rres q st)) = 502
      \<and> c_fmiRadar (snd (apiFmiRadar env now rres q st)) = c_fmiRadar st
      \<and> requests (snd (apiFmiRadar env now rres q st)) =
          requests st @ [radarRequest (radarKeyOf env q)])"
    using radar_stale_failure[where st=st] by blast
  show ?thesis
    by (intro conjI) (rule s1 s2 s3 k1 k2 k3 r1 r2 w1 w2 w3 b1 b2 b3 t1 t2 t3)+
qed

theorem cache_read_through_by_resource_witness:
  "fst (getSolarwind exampleEnv 1000000 [] Failed Failed mockSw (initialServer :: unit server)) = mockSw
   \<and> requests (snd (getSolarwind exampleEnv 1000000 [] Failed Failed mockSw (initialServer :: unit server)))
       = [SWPC_PLASMA, SWPC_MAG]
   \<and> c_solarwind (snd (getSolarwind exampleEnv 1000000 [] Failed Failed mockSw (initialServer :: unit server)))
       = \<lparr>e_data = Some mockSw, e_ts = 1000000\<rparr>
   \<and> getSolarwind exampleEnv 1239999 [] (Response True 200 (Some feedA)) (Response True 200 (Some feedB)) mockSw
        (snd (getSolarwind exampleEnv 1000000 [] Failed Failed mockSw (initialServer :: unit server)))
       = getSolarwind exampleEnv 1000000 [] Failed Failed mockSw (initialServer :: unit server)
   \<and> requests (snd (getSolarwind exampleEnv 1240000 [] (Response True 200 (Some feedA))
        (Response True 200 (Some feedB)) mockSw
        (snd (getSolarwind exampleEnv 1000000 [] Failed Failed mockSw (initialServer :: unit server)))))
       = [SWPC_PLASMA, SWPC_MAG, SWPC_PLASMA, SWPC_MAG]
   \<and> out_updatedAt (fst (getSolarwind exampleEnv 1240000 [] (Response True 200 (Some feedA))
        (Response True 200 (Some feedB)) mockSw
        (snd (getSolarwind exampleEnv 1000000 [] Failed Failed mockSw (initialServer :: unit server)))))
       = ''2024-01-01T12:03:00.000Z''
   \<and> fst (getKp exampleEnv 1000000 [] (Response False 503 None) mockKp (initialServer :: unit server)) = mockKp
   \<and> kp_values (fst (getKp exampleEnv 1000000 [] (Response True 200 (Some kpFeed)) mockKp
        (initialServer :: unit server))) = [Some (23 / 10)]
   \<and> getWeatherTemperature exampleEnv 1599999 ''2024-01-01T12:09:00.000Z''
        (Response True 200 (Some meteoNow)) DEFAULT_LAT DEFAULT_LON
        (snd (getWeatherTemperature exampleEnv 1000000 ''2024-01-01T12:00:00.000Z'' Failed
                DEFAULT_LAT DEFAULT_LON (initialServer :: unit server)))
       = getWeatherTemperature exampleEnv 1000000 ''2024-01-01T12:00:00.000Z'' Failed
           DEFAULT_LAT DEFAULT_LON (initialServer :: unit server)
   \<and> fst (getWeatherTemperature exampleEnv 1000000 ''2024-01-01T12:00:00.000Z'' Failed
           DEFAULT_LAT DEFAULT_LON (initialServer :: unit server))
       = weatherFallback ''2024-01-01T12:00:00.000Z'' DEFAULT_LAT DEFAULT_LON
   \<and> w_temperatureC (fst (getWeatherTemperature exampleEnv 1600000 ''2024-01-01T12:10:00.000Z''
        (Response True 200 (Some meteoNow)) DEFAULT_LAT DEFAULT_LON
        (snd (getWeatherTemperature exampleEnv 1000000 ''2024-01-01T12:00:00.000Z'' Failed
                DEFAULT_LAT DEFAULT_LON (initialServer :: unit server))))) = Some (- 31 / 10)
   \<and> requests (snd (getWeatherTemperature exampleEnv 1600000 ''2024-01-01T12:10:00.000Z''
        (Response True 200 (Some meteoNow)) DEFAULT_LAT DEFAULT_LON
        (snd (getWeatherTemperature exampleEnv 1000000 ''2024-01-01T12:00:00.000Z'' Failed
                DEFAULT_LAT DEFAULT_LON (initialServer :: unit server)))))
       = [OPEN_METEO DEFAULT_LAT DEFAULT_LON, OPEN_METEO DEFAULT_LAT DEFAULT_LON]
   \<and> bx_rows (fst (getFmiBx exampleEnv 1239999 [] 1239999 (Response True 200 (Some fmiRows)) [] ''KEV'' 60
        (snd (getFmiBx exampleEnv 1000000 [] 1000000 Failed [] ''KEV'' 60 (initialServer :: unit server)))))
       = []
   \<and> requests (snd (getFmiBx exampleEnv 1239999 [] 1239999 (Response True 200 (Some fmiRows)) [] ''KEV'' 60
        (snd (getFmiBx exampleEnv 1000000 [] 1000000 Failed [] ''KEV'' 60 (initialServer :: unit server)))))
       = [FMI_OPEN_DATA 100007 60]
   \<and> fst (getRx 1239999 () (snd (getRx 1000000 () (initialServer :: unit server)))) = ()
   \<and> fst (apiFmiRadar exampleEnv 1239999 Failed tileQuery
        (snd (apiFmiRadar exampleEnv 1000000
                (Response True 200 (Some \<lparr>t_buf = ''png'', t_ct = ''image/png''\<rparr>)) tileQuery
                (initialServer :: unit server))))
       = Image ''image/png'' ''png''"
proof -
  let ?st0 = "initialServer :: unit server"
  let ?first = "getSolarwind exampleEnv 1000000 [] Failed Failed mockSw ?st0"
  let ?wfirst = "getWeatherTemperature exampleEnv 1000000 ''2024-01-01T12:00:00.000Z'' Failed
           DEFAULT_LAT DEFAULT_LON ?st0"
  have miss: "e_data (c_solarwind ?st0) = None \<or> TTL_MS \<le> 1000000 - e_ts (c_solarwind ?st0)"
    by (simp add: initialServer_def)
  have failed: "upstreamFailed (Failed :: swrow list fetched) \<or> upstreamFailed (Failed :: swrow list fetched)"
    by (simp add: upstreamFailed_def)
  have fresh: "(1239999 :: int) - 1000000 < TTL_MS"
    by (simp add: TTL_MS_def)
  note rt = cache_read_through_by_resource[where st = ?st0 and now = 1000000 and env = exampleEnv
      and clock = "[]" and pr = Failed and mr = Failed and mock = mockSw
      and kres = "Response False 503 None" and kmock = mockKp]
  note onmiss = rt[THEN conjunct2, THEN conjunct1, THEN mp, OF miss]
  have fetched: "fetchSolarwind exampleEnv [] Failed Failed mockSw = mockSw"
    by (rule rt[THEN conjunct2, THEN conjunct2, THEN conjunct1, THEN mp, OF failed])
  have first: "?first =
      (mockSw, ?st0\<lparr>c_solarwind := \<lparr>e_data = Some mockSw, e_ts = 1000000\<rparr>,
                    requests := requests ?st0 @ [SWPC_PLASMA, SWPC_MAG]\<rparr>)"
    using onmiss[THEN conjunct1] by (simp only: fetched)
  have again:
    "getSolarwind exampleEnv 1239999 [] (Response True 200 (Some feedA)) (Response True 200 (Some feedB)) mockSw
       (snd ?first) = ?first"
    by (rule onmiss[THEN conjunct2, THEN spec, THEN spec, THEN spec, THEN spec, THEN spec, THEN mp, OF fresh])
  have kpfailed: "upstreamFailed (Response False 503 None :: kpfeed fetched)"
    by (simp add: upstreamFailed_def)
  have kpmiss: "e_data (c_kp ?st0) = None \<or> TTL_MS \<le> 1000000 - e_ts (c_kp ?st0)"
    by (simp add: initialServer_def)
  note kprt = rt[THEN conjunct2, THEN conjunct2, THEN conjunct2, THEN conjunct2]
  have kpfetched: "fetchKp exampleEnv [] (Response False 503 None) mockKp = mockKp"
    by (rule kprt[THEN conjunct2, THEN conjunct1, THEN mp, OF kpfailed])
  have kp: "fst (getKp exampleEnv 1000000 [] (Response False 503 None) mockKp ?st0) = mockKp"
    using kprt[THEN conjunct1, THEN mp, OF kpmiss, THEN conjunct1] by (simp only: kpfetched fst_conv)
  have req0: "requests ?st0 = []"
    by (simp add: initialServer_def)
  have parts: "fst ?first = mockSw" "requests (snd ?first) = [SWPC_PLASMA, SWPC_MAG]"
    "c_solarwind (snd ?first) = \<lparr>e_data = Some mockSw, e_ts = 1000000\<rparr>"
    unfolding first by (simp_all add: req0)
  have third1: "requests (snd (getSolarwind exampleEnv 1240000 [] (Response True 200 (Some feedA))
        (Response True 200 (Some feedB)) mockSw (snd ?first)))
       = [SWPC_PLASMA, SWPC_MAG, SWPC_PLASMA, SWPC_MAG]"
    unfolding first by (simp add: getSolarwind_def TTL_MS_def req0 Let_def)
  have third2: "out_updatedAt (fst (getSolarwind exampleEnv 1240000 [] (Response True 200 (Some feedA))
        (Response True 200 (Some feedB)) mockSw (snd ?first)))
       = out_updatedAt (solarwindOut exampleEnv [] feedA feedB)"
    unfolding first by (simp add: getSolarwind_def TTL_MS_def fetchSolarwind_def Let_def)
  have upd: "out_updatedAt (solarwindOut exampleEnv [] feedA feedB) = ''2024-01-01T12:03:00.000Z''"
    by code_simp
  have kpv: "kp_values (fst (getKp exampleEnv 1000000 [] (Response True 200 (Some kpFeed)) mockKp ?st0))
       = [Some (23 / 10)]"
    by code_simp
  note wt = cache_read_through_by_resource[where st = ?st0 and now = 1000000 and env = exampleEnv
      and clock = "''2024-01-01T12:00:00.000Z''" and wres = Failed
      and lat = DEFAULT_LAT and lon = DEFAULT_LON]
  have wstale: "weatherStale exampleEnv 1000000 DEFAULT_LAT DEFAULT_LON ?st0"
    by (simp add: weatherStale_def initialServer_def)
  have wfresh: "(1599999 :: int) - 1000000 < WEATHER_TTL_MS"
    by (simp add: WEATHER_TTL_MS_def)
  have wfailed: "upstreamFailed (Failed :: meteo fetched)"
    by (simp add: upstreamFailed_def)
  note w2 = wt[THEN conjunct2, THEN conjunct2, THEN conjunct2, THEN conjunct2, THEN conjunct2, THEN conjunct2, THEN conjunct2, THEN conjunct2, THEN conjunct2, THEN conjunct1, THEN mp, OF wstale]
  have wagain: "getWeatherTemperature exampleEnv 1599999 ''2024-01-01T12:09:00.000Z''
        (Response True 200 (Some meteoNow)) DEFAULT_LAT DEFAULT_LON (snd ?wfirst) = ?wfirst"
    by (rule w2[THEN conjunct2, THEN spec, THEN spec, THEN spec, THEN mp, OF wfresh])
  have wfetched: "fetchWeather exampleEnv ''2024-01-01T12:00:00.000Z'' DEFAULT_LAT DEFAULT_LON Failed
      = weatherFallback ''2024-01-01T12:00:00.000Z'' DEFAULT_LAT DEFAULT_LON"
    by (rule wt[THEN conjunct2, THEN conjunct2, THEN conjunct2, THEN conjunct2, THEN conjunct2, THEN conjunct2, THEN conjunct2, THEN conjunct2, THEN conjunct2, THEN conjunct2, THEN conjunct1, THEN mp, OF wfailed])
  have wfst: "fst ?wfirst = weatherFallback ''2024-01-01T12:00:00.000Z'' DEFAULT_LAT DEFAULT_LON"
    using w2[THEN conjunct1] by (simp only: wfetched fst_conv)
  have evals: "w_temperatureC (fst (getWeatherTemperature exampleEnv 1600000 ''2024-01-01T12:10:00.000Z''
        (Response True 200 (Some meteoNow)) DEFAULT_LAT DEFAULT_LON (snd ?wfirst))) = Some (- 31 / 10)"
    "requests (snd (getWeatherTemperature exampleEnv 1600000 ''2024-01-01T12:10:00.000Z''
        (Response True 200 (Some meteoNow)) DEFAULT_LAT DEFAULT_LON (snd ?wfirst)))
       = [OPEN_METEO DEFAULT_LAT DEFAULT_LON, OPEN_METEO DEFAULT_LAT DEFAULT_LON]"
    "bx_rows (fst (getFmiBx exampleEnv 1239999 [] 1239999 (Response True 200 (Some fmiRows)) [] ''KEV'' 60
        (snd (getFmiBx exampleEnv 1000000 [] 1000000 Failed [] ''KEV'' 60 ?st0)))) = []"
    "requests (snd (getFmiBx exampleEnv 1239999 [] 1239999 (Response True 200 (Some fmiRows)) [] ''KEV'' 60
        (snd (getFmiBx exampleEnv 1000000 [] 1000000 Failed [] ''KEV'' 60 ?st0))))
       = [FMI_OPEN_DATA 100007 60]"
    "fst (getRx 1239999 () (snd (getRx 1000000 () ?st0))) = ()"
    "fst (apiFmiRadar exampleEnv 1239999 Failed tileQuery
        (snd (apiFmiRadar exampleEnv 1000000
                (Response True 200 (Some \<lparr>t_buf = ''png'', t_ct = ''image/png''\<rparr>)) tileQuery ?st0)))
       = Image ''image/png'' ''png''"
    by code_simp+
  from parts again third1 third2 upd kp kpv wagain wfst evals show ?thesis
    by (simp only: simp_thms)
qed

text \<open>
  Claim C9. In every state the server can reach, for every station code and every number
  of minutes, the payload that \<open>getFmiBx\<close> returns (from the cache or from a new request)
  has its \<open>times\<close>, \<open>bx\<close> and \<open>bz\<close> arrays equal to the times, the bx and the bz of its
  rows, row by row and in the same order, so each has the length of \<open>rows\<close>; and when
  \<open>rows\<close> is not empty, \<open>updatedAt\<close> is the time of the last row.
\<close>

theorem magnetometer_payload_parallel_arrays:
  assumes "reachable env st"
  shows "bx_times (fst (getFmiBx env now clock endTime res mock station minutes st)) =
           map fr_time (bx_rows (fst (getFmiBx env now clock endTime res mock station minutes st)))
       \<and> bx_bx (fst (getFmiBx env now clock endTime res mock station minutes st)) =
           map fr_bx (bx_rows (fst (getFmiBx env now clock endTime res mock station minutes st)))
       \<and> bx_bz (fst (getFmiBx env now clock endTime res mock station minutes st)) =
           map fr_bz (bx_rows (fst (getFmiBx env now clock endTime res mock station minutes st)))
       \<and> length (bx_times (fst (getFmiBx env now clock endTime res mock station minutes st))) =
           length (bx_rows (fst (getFmiBx env now clock endTime res mock station minutes st)))
       \<and> length (bx_bx (fst (getFmiBx env now clock endTime res mock station minutes st))) =
           length (bx_rows (fst (getFmiBx env now clock endTime res mock station minutes st)))
       \<and> length (bx_bz (fst (getFmiBx env now clock endTime res mock station minutes st))) =
           length (bx_rows (fst (getFmiBx env now clock endTime res mock station minutes st)))
       \<and> (bx_rows (fst (getFmiBx env now clock endTime res mock station minutes st)) \<noteq> [] \<longrightarrow>
            bx_updatedAt (fst (getFmiBx env now clock endTime res mock station minutes st)) =
              fr_time (last (bx_rows (fst (getFmiBx env now clock endTime res mock station minutes st)))))"
proof -
  let ?d = "fst (getFmiBx env now clock endTime res mock station minutes st)"
  from assms have "bxCacheOk st" by (rule reachable_bxCacheOk)
  then have wf: "bxWellFormed ?d" by (rule getFmiBx_wf)
  then have eqs: "bx_times ?d = map fr_time (bx_rows ?d)" "bx_bx ?d = map fr_bx (bx_rows ?d)"
    "bx_bz ?d = map fr_bz (bx_rows ?d)"
    "bx_rows ?d \<noteq> [] \<longrightarrow> bx_updatedAt ?d = fr_time (last (bx_rows ?d))"
    by (simp_all add: bxWellFormed_def)
  have lens: "length (bx_times ?d) = length (bx_rows ?d)" "length (bx_bx ?d) = length (bx_rows ?d)"
    "length (bx_bz ?d) = length (bx_rows ?d)"
    by (simp_all only: eqs length_map)
  from eqs lens show ?thesis by blast
qed

theorem magnetometer_payload_parallel_arrays_witness:
  "bx_rows (fst (getFmiBx exampleEnv 1704110580000 ''2024-01-01T12:03:00.000Z'' 1704110580000
      (Response True 200 (Some fmiRows)) [] ''KEV'' 60 (initialServer :: unit server))) = fmiRows
   \<and> bx_times (fst (getFmiBx exampleEnv 1704110580000 ''2024-01-01T12:03:00.000Z'' 1704110580000
      (Response True 200 (Some fmiRows)) [] ''KEV'' 60 (initialServer :: unit server)))
       = [''2024-01-01T12:01:00Z'', ''2024-01-01T12:02:00Z'']
   \<and> bx_bx (fst (getFmiBx exampleEnv 1704110580000 ''2024-01-01T12:03:00.000Z'' 1704110580000
      (Response True 200 (Some fmiRows)) [] ''KEV'' 60 (initialServer :: unit server)))
       = [Some 10, Some 11]
   \<and> bx_bz (fst (getFmiBx exampleEnv 1704110580000 ''2024-01-01T12:03:00.000Z'' 1704110580000
      (Response True 200 (Some fmiRows)) [] ''KEV'' 60 (initialServer :: unit server)))
       = [Some (- 20), None]
   \<and> bx_updatedAt (fst (getFmiBx exampleEnv 1704110580000 ''2024-01-01T12:03:00.000Z'' 1704110580000
      (Response True 200 (Some fmiRows)) [] ''KEV'' 60 (initialServer :: unit server)))
       = ''2024-01-01T12:02:00Z''"
proof -
  let ?d = "fst (getFmiBx exampleEnv 1704110580000 ''2024-01-01T12:03:00.000Z'' 1704110580000
      (Response True 200 (Some fmiRows)) [] ''KEV'' 60 (initialServer :: unit server))"
  have rows: "bx_rows ?d = fmiRows"
    by code_simp
  have r: "reachable exampleEnv (initialServer :: unit server)"
    by (rule reachable.start)
  note th = magnetometer_payload_parallel_arrays[OF r, of 1704110580000 "''2024-01-01T12:03:00.000Z''"
      1704110580000 "Response True 200 (Some fmiRows)" "[]" "''KEV''" 60]
  have t: "bx_times ?d = map fr_time (bx_rows ?d)"
    by (rule th[THEN conjunct1])
  have x: "bx_bx ?d = map fr_bx (bx_rows ?d)"
    by (rule th[THEN conjunct2, THEN conjunct1])
  have z: "bx_bz ?d = map fr_bz (bx_rows ?d)"
    by (rule th[THEN conjunct2, THEN conjunct2, THEN conjunct1])
  have ne: "bx_rows ?d \<noteq> []"
    unfolding rows by (simp add: fmiRows_def)
  have u: "bx_updatedAt ?d = fr_time (last (bx_rows ?d))"
    by (rule th[THEN conjunct2, THEN conjunct2, THEN conjunct2, THEN conjunct2, THEN conjunct2,
          THEN conjunct2, THEN mp, OF ne])
  show ?thesis
    by (simp only: t x z u rows) (simp add: fmiRows_def)
qed

section \<open>Upstream failures\<close>



lemma apiWeather_failed:
  "upstreamFailed res \<Longrightarrow>
   c_weatherTemp st (weatherKey env (weatherLat env qlat) (weatherLon env qlon)) = None \<Longrightarrow>
     fst (apiWeather env now clock res qlat qlon st) =
       Json (weatherFallback clock (weatherLat env qlat) (weatherLon env qlon))"
  by (simp add: apiWeather_def getWeatherTemperature_def Let_def fetchWeather_failed)

lemma apiFmiBx_failed:
  "upstreamFailed res \<Longrightarrow> c_fmiBx st (bxKey (bxStation qs) (bxMinutes env qm)) = None \<Longrightarrow>
     fst (apiFmiBx env now clock endTime res mock qs qm st) =
       Json (bxData clock (bxStation qs) (bxMinutes env qm) mock)"
  by (simp add: apiFmiBx_def getFmiBx_def Let_def fetchFmi_failed)

lemma radar_failed:
  "upstreamFailed res \<Longrightarrow> c_fmiRadar st = Map.empty \<Longrightarrow>
     status (fst (apiFmiRadar env now res q st)) \<in> {400, 502}"
  by (auto simp: apiFmiRadar_def Let_def upstreamFailed_def split: fetched.splits option.splits)




















section \<open>The coordinates of the weather endpoint\<close>

text \<open>
  Claim C10. On a runtime whose \<open>parseFloat\<close> reads the two default strings as the
  default numbers: a \<open>lat\<close> parameter that is missing, that \<open>parseFloat\<close> does not read
  as a finite number, or that lies outside [-90, 90] is replaced by 60.4728, and a \<open>lon\<close>
  parameter that is missing, not a finite number or outside [-180, 180] by 26.3042; a
  value in range is kept. The endpoint never rejects the request: it answers with status
  200 and the payload of \<open>getWeatherTemperature\<close> at the coerced coordinates, and an
  upstream request, when one is made, asks for those coordinates.
\<close>

theorem weather_coordinates_coerced:
  assumes lat0: "parseFloat env ''60.4728'' = Some DEFAULT_LAT"
    and lon0: "parseFloat env ''26.3042'' = Some DEFAULT_LON"
  shows "(qlat = None \<longrightarrow> weatherLat env qlat = DEFAULT_LAT)
       \<and> (\<forall>v. qlat = Some v \<and> parseFloat env v = None \<longrightarrow> weatherLat env qlat = DEFAULT_LAT)
       \<and> (\<forall>v x. qlat = Some v \<and> parseFloat env v = Some x \<and> (x < - 90 \<or> 90 < x) \<longrightarrow>
             weatherLat env qlat = DEFAULT_LAT)
       \<and> (\<forall>v x. qlat = Some v \<and> parseFloat env v = Some x \<and> - 90 \<le> x \<and> x \<le> 90 \<longrightarrow>
             weatherLat env qlat = x)
       \<and> (qlon = None \<longrightarrow> weatherLon env qlon = DEFAULT_LON)
       \<and> (\<forall>v. qlon = Some v \<and> parseFloat env v = None \<longrightarrow> weatherLon env qlon = DEFAULT_LON)
       \<and> (\<forall>v x. qlon = Some v \<and> parseFloat env v = Some x \<and> (x < - 180 \<or> 180 < x) \<longrightarrow>
             weatherLon env qlon = DEFAULT_LON)
       \<and> (\<forall>v x. qlon = Some v \<and> parseFloat env v = Some x \<and> - 180 \<le> x \<and> x \<le> 180 \<longrightarrow>
             weatherLon env qlon = x)
       \<and> DEFAULT_LAT = 604728 / 10000 \<and> DEFAULT_LON = 263042 / 10000
       \<and> status (fst (apiWeather env now clock res qlat qlon st)) = 200
       \<and> apiWeather env now clock res qlat qlon st =
           (Json (fst (getWeatherTemperature env now clock res (weatherLat env qlat) (weatherLon env qlon) st)),
            snd (getWeatherTemperature env now clock res (weatherLat env qlat) (weatherLon env qlon) st))
       \<and> (requests (snd (apiWeather env now clock res qlat qlon st)) = requests st
           \<or> requests (snd (apiWeather env now clock res qlat qlon st)) =
               requests st @ [OPEN_METEO (weatherLat env qlat) (weatherLon env qlon)])
       \<and> (c_weatherTemp st (weatherKey env (weatherLat env qlat) (weatherLon env qlon)) = None \<longrightarrow>
             requests (snd (apiWeather env now clock res qlat qlon st)) =
               requests st @ [OPEN_METEO (weatherLat env qlat) (weatherLon env qlon)]
             \<and> w_latitude (fst (getWeatherTemperature env now clock res (weatherLat env qlat) (weatherLon env qlon) st)) = weatherLat env qlat
             \<and> w_longitude (fst (getWeatherTemperature env now clock res (weatherLat env qlat) (weatherLon env qlon) st)) = weatherLon env qlon)"
proof -
  have api: "apiWeather env now clock res qlat qlon st =
           (Json (fst (getWeatherTemperature env now clock res (weatherLat env qlat) (weatherLon env qlon) st)),
            snd (getWeatherTemperature env now clock res (weatherLat env qlat) (weatherLon env qlon) st))"
    by (simp add: apiWeather_def split: prod.splits)
  have req: "requests (snd (apiWeather env now clock res qlat qlon st)) = requests st
           \<or> requests (snd (apiWeather env now clock res qlat qlon st)) =
               requests st @ [OPEN_METEO (weatherLat env qlat) (weatherLon env qlon)]"
    using getWeather_requests[of env now clock res "weatherLat env qlat" "weatherLon env qlon" st]
    by (auto simp: api)
  have miss: "c_weatherTemp st (weatherKey env (weatherLat env qlat) (weatherLon env qlon)) = None \<longrightarrow>
             requests (snd (apiWeather env now clock res qlat qlon st)) =
               requests st @ [OPEN_METEO (weatherLat env qlat) (weatherLon env qlon)]
             \<and> w_latitude (fst (getWeatherTemperature env now clock res (weatherLat env qlat) (weatherLon env qlon) st)) = weatherLat env qlat
             \<and> w_longitude (fst (getWeatherTemperature env now clock res (weatherLat env qlat) (weatherLon env qlon) st)) = weatherLon env qlon"
    using getWeather_miss[of st env "weatherLat env qlat" "weatherLon env qlon" now clock res]
    by (simp add: api)
  have d: "DEFAULT_LAT = 604728 / 10000" "DEFAULT_LON = 263042 / 10000"
    by (simp_all add: DEFAULT_LAT_def DEFAULT_LON_def)
  have la1: "qlat = None \<longrightarrow> weatherLat env qlat = DEFAULT_LAT"
    using weatherLat_cases(1)[of qlat env] lat0 by simp
  have la2: "\<forall>v. qlat = Some v \<and> parseFloat env v = None \<longrightarrow> weatherLat env qlat = DEFAULT_LAT"
    using weatherLat_cases(2)[of qlat _ env] by simp
  have la3: "\<forall>v x. qlat = Some v \<and> parseFloat env v = Some x \<and> (x < - 90 \<or> 90 < x) \<longrightarrow>
             weatherLat env qlat = DEFAULT_LAT"
    using weatherLat_cases(3)[of qlat _ env] by simp
  have la4: "\<forall>v x. qlat = Some v \<and> parseFloat env v = Some x \<and> - 90 \<le> x \<and> x \<le> 90 \<longrightarrow>
             weatherLat env qlat = x"
    using weatherLat_cases(4)[of qlat _ env] by simp
  have lo1: "qlon = None \<longrightarrow> weatherLon env qlon = DEFAULT_LON"
    using weatherLon_cases(1)[of qlon env] lon0 by simp
  have lo2: "\<forall>v. qlon = Some v \<and> parseFloat env v = None \<longrightarrow> weatherLon env qlon = DEFAULT_LON"
    using weatherLon_cases(2)[of qlon _ env] by simp
  have lo3: "\<forall>v x. qlon = Some v \<and> parseFloat env v = Some x \<and> (x < - 180 \<or> 180 < x) \<longrightarrow>
             weatherLon env qlon = DEFAULT_LON"
    using weatherLon_cases(3)[of qlon _ env] by simp
  have lo4: "\<forall>v x. qlon = Some v \<and> parseFloat env v = Some x \<and> - 180 \<le> x \<and> x \<le> 180 \<longrightarrow>
             weatherLon env qlon = x"
    using weatherLon_cases(4)[of qlon _ env] by simp
  show ?thesis
    by (intro conjI)
      (rule la1 la2 la3 la4 lo1 lo2 lo3 lo4 d apiWeather_status api req miss)+
qed

theorem weather_coordinates_coerced_witness:
  "parseFloat exampleEnv ''60.4728'' = Some DEFAULT_LAT
   \<and> parseFloat exampleEnv ''26.3042'' = Some DEFAULT_LON
   \<and> parseFloat exampleEnv ''95'' = Some 95
   \<and> parseFloat exampleEnv ''abc'' = None
   \<and> weatherLat exampleEnv (Some ''95'') = DEFAULT_LAT
   \<and> weatherLat exampleEnv (Some ''abc'') = DEFAULT_LAT
   \<and> weatherLon exampleEnv None = DEFAULT_LON
   \<and> weatherLat exampleEnv (Some ''61.5'') = 123 / 2
   \<and> status (fst (apiWeather exampleEnv 0 ''2024-01-01T12:00:00.000Z'' Failed (Some ''95'') None
        (initialServer :: unit server))) = 200
   \<and> requests (snd (apiWeather exampleEnv 0 ''2024-01-01T12:00:00.000Z'' Failed (Some ''95'') None
        (initialServer :: unit server))) = [OPEN_METEO (604728 / 10000) (263042 / 10000)]"
proof -
  have lat0: "parseFloat exampleEnv ''60.4728'' = Some DEFAULT_LAT"
    and lon0: "parseFloat exampleEnv ''26.3042'' = Some DEFAULT_LON"
    by code_simp+
  have p95: "parseFloat exampleEnv ''95'' = Some 95"
    and pabc: "parseFloat exampleEnv ''abc'' = None"
    by code_simp+
  note th = weather_coordinates_coerced[OF lat0 lon0, of "Some ''95''" None 0
      "''2024-01-01T12:00:00.000Z''" Failed "initialServer :: unit server"]
  have out: "Some ''95'' = Some ''95'' \<and> parseFloat exampleEnv ''95'' = Some 95
      \<and> ((95 :: rat) < - 90 \<or> 90 < (95 :: rat))"
    by (simp add: p95)
  have lat95: "weatherLat exampleEnv (Some ''95'') = DEFAULT_LAT"
    by (rule th[THEN conjunct2, THEN conjunct2, THEN conjunct1, THEN spec, THEN spec, THEN mp, OF out])
  have lonNone: "weatherLon exampleEnv None = DEFAULT_LON"
    by (rule th[THEN conjunct2, THEN conjunct2, THEN conjunct2, THEN conjunct2, THEN conjunct1,
          THEN mp, OF refl])
  have st: "status (fst (apiWeather exampleEnv 0 ''2024-01-01T12:00:00.000Z'' Failed (Some ''95'') None
        (initialServer :: unit server))) = 200"
    by (rule th[THEN conjunct2, THEN conjunct2, THEN conjunct2, THEN conjunct2, THEN conjunct2,
          THEN conjunct2, THEN conjunct2, THEN conjunct2, THEN conjunct2, THEN conjunct2,
          THEN conjunct1])
  have others: "weatherLat exampleEnv (Some ''abc'') = DEFAULT_LAT"
    "weatherLat exampleEnv (Some ''61.5'') = 123 / 2"
    "requests (snd (apiWeather exampleEnv 0 ''2024-01-01T12:00:00.000Z'' Failed (Some ''95'') None
        (initialServer :: unit server))) = [OPEN_METEO (604728 / 10000) (263042 / 10000)]"
    by code_simp+
  from lat0 lon0 p95 pabc lat95 lonNone st others show ?thesis
    by (simp only: simp_thms)
qed

end
